theory Spec2Isabelle
  imports Main "HOL-Library.Sublist" "HOL-Library.Word"
begin

section \<open>Data model\<close>

text \<open>
  Python text is modelled as \<^typ>\<open>string\<close>: the list of the bytes of its UTF-8 encoding.
  Concatenation, equality and the substring test \<open>s in t\<close> (here \<^const>\<open>sublist\<close>) are the
  same on code points and on their UTF-8 bytes.

  One item of captured program output, \<open>result.data.outputs[i]\<close>: the stream it was
  written to and the text.
\<close>

record OutputItem =
  type :: string
  data :: string

text \<open>
  \<open>result.data\<close> of the sandbox client: a status, the ordered output items and the
  execution time in milliseconds. \<open>execution_time_ms = None\<close> stands for a response
  object without that attribute (\<open>getattr\<close> then takes its default).
\<close>

record ExecutionResult =
  status :: string
  outputs :: "OutputItem list"
  execution_time_ms :: "int option"

text \<open>A raised Python \<open>Exception\<close>; \<open>message e\<close> is \<open>str(e)\<close>.\<close>

datatype exn = Exception (message: string)

text \<open>
  \<open>cognitora_client.code_interpreter.execute(code=, language=, networking=)\<close>: the remote
  call either raises or answers with a result. It is a parameter of every function below.
\<close>

type_synonym execute_call = "string \<Rightarrow> string \<Rightarrow> bool \<Rightarrow> exn + ExecutionResult"

text \<open>A remote service that gives the same answer to every request.\<close>

definition fixed_execute :: "exn + ExecutionResult \<Rightarrow> execute_call" where
  "fixed_execute response code language networking = response"

section \<open>Text helpers of the Python runtime\<close>

text \<open>\<open>sep.join(xs)\<close>.\<close>

fun join :: "string \<Rightarrow> string list \<Rightarrow> string" where
  "join sep [] = []"
| "join sep [x] = x"
| "join sep (x # y # ys) = x @ sep @ join sep (y # ys)"

text \<open>\<open>str(n)\<close> for an integer, as an f-string renders it: decimal digits, a minus sign first.\<close>

definition digit_char :: "nat \<Rightarrow> char" where
  "digit_char d = ''0123456789'' ! d"

function str_nat :: "nat \<Rightarrow> string" where
  "str_nat n = (if n < 10 then [digit_char n] else str_nat (n div 10) @ [digit_char (n mod 10)])"
  by pat_completeness auto
termination
  by (relation "measure id") auto

declare str_nat.simps [simp del]

definition str_int :: "int \<Rightarrow> string" where
  "str_int i = (if i < 0 then ''-'' @ str_nat (nat (- i)) else str_nat (nat i))"

section \<open>Tool adapters\<close>

text \<open>
  The loop \<open>for output_item in result.data.outputs\<close> of the three adapters: an item goes
  to \<open>output_lines\<close> when its type is \<open>stdout\<close>, to \<open>error_lines\<close> when it is \<open>stderr\<close>,
  and is skipped otherwise. The two accumulators are the lists being appended to.
\<close>

fun collect_lines :: "OutputItem list \<Rightarrow> string list \<Rightarrow> string list \<Rightarrow> string list \<times> string list" where
  "collect_lines [] output_lines error_lines = (output_lines, error_lines)"
| "collect_lines (output_item # rest) output_lines error_lines =
     (if type output_item = ''stdout''
      then collect_lines rest (output_lines @ [data output_item]) error_lines
      else if type output_item = ''stderr''
      then collect_lines rest output_lines (error_lines @ [data output_item])
      else collect_lines rest output_lines error_lines)"

text \<open>
  The list \<open>result_parts\<close>: the newline-joined output block when \<open>output_lines\<close> is not
  empty, then the newline-joined error block under its \<open>Errors:\<close> header when
  \<open>error_lines\<close> is not empty.
\<close>

definition result_parts :: "string list \<Rightarrow> string list \<Rightarrow> string list" where
  "result_parts output_lines error_lines =
     (if output_lines \<noteq> [] then [join ''\<newline>'' output_lines] else []) @
     (if error_lines \<noteq> [] then [''Errors:\<newline>'' @ join ''\<newline>'' error_lines] else [])"

text \<open>
  \<open>execute_code\<close> of \<open>1-example-basic-tasks.py\<close>. The body of its \<open>try\<close> is
  \<open>execute_code_try\<close>, where \<open>Inl\<close> is a raised exception; \<open>execute_code\<close> adds the
  handler \<open>except Exception as e\<close>. The remote call is made with networking off.
\<close>

definition execute_code_try :: "execute_call \<Rightarrow> string \<Rightarrow> string \<Rightarrow> exn + string" where
  "execute_code_try execute code language =
     (case execute code language False of
        Inl e \<Rightarrow> Inl e
      | Inr result \<Rightarrow>
          if status result = ''error'' \<or> status result = ''failed''
          then Inr (''Execution failed with status: '' @ status result)
          else
            (case collect_lines (outputs result) [] [] of
               (output_lines, error_lines) \<Rightarrow>
                 if result_parts output_lines error_lines \<noteq> []
                 then Inr (join ''\<newline>\<newline>'' (result_parts output_lines error_lines))
                 else
                   Inr (''Code executed successfully (status: '' @ status result @
                        '', execution time: '' @
                        str_int (case execution_time_ms result of None \<Rightarrow> 0 | Some t \<Rightarrow> t) @
                        ''ms) but produced no output.'')))"

definition execute_code :: "execute_call \<Rightarrow> string \<Rightarrow> string \<Rightarrow> exn + string" where
  "execute_code execute code language =
     (case execute_code_try execute code language of
        Inl e \<Rightarrow> Inr (''Error executing code: '' @ message e)
      | Inr text \<Rightarrow> Inr text)"

text \<open>
  \<open>execute_code_with_network\<close> of \<open>4-example-live-crypto-tracker.py\<close>: networking on, and
  a no-output message without the execution time.
\<close>

definition execute_code_with_network_try :: "execute_call \<Rightarrow> string \<Rightarrow> string \<Rightarrow> exn + string" where
  "execute_code_with_network_try execute code language =
     (case execute code language True of
        Inl e \<Rightarrow> Inl e
      | Inr result \<Rightarrow>
          if status result = ''error'' \<or> status result = ''failed''
          then Inr (''Execution failed with status: '' @ status result)
          else
            (case collect_lines (outputs result) [] [] of
               (output_lines, error_lines) \<Rightarrow>
                 if result_parts output_lines error_lines \<noteq> []
                 then Inr (join ''\<newline>\<newline>'' (result_parts output_lines error_lines))
                 else
                   Inr (''Code executed successfully (status: '' @ status result @
                        '') but produced no output.'')))"

definition execute_code_with_network :: "execute_call \<Rightarrow> string \<Rightarrow> string \<Rightarrow> exn + string" where
  "execute_code_with_network execute code language =
     (case execute_code_with_network_try execute code language of
        Inl e \<Rightarrow> Inr (''Error executing code: '' @ message e)
      | Inr text \<Rightarrow> Inr text)"

text \<open>
  The UTF-8 bytes of the three symbols that \<open>5-example-multi-agent-research.py\<close> puts in
  front of its messages: U+274C, U+2705, and U+26A0 with U+FE0F.
\<close>

definition cross_mark :: string where
  "cross_mark = [CHR 0xE2, CHR 0x9D, CHR 0x8C]"

definition check_mark :: string where
  "check_mark = [CHR 0xE2, CHR 0x9C, CHR 0x85]"

definition warning_sign :: string where
  "warning_sign = [CHR 0xE2, CHR 0x9A, CHR 0xA0, CHR 0xEF, CHR 0xB8, CHR 0x8F]"

text \<open>
  \<open>execute_python_analysis\<close> of \<open>5-example-multi-agent-research.py\<close>: the language is
  always \<open>python\<close>, the parts are joined by one newline, and every message has a prefix.
\<close>

definition execute_python_analysis_try :: "execute_call \<Rightarrow> string \<Rightarrow> exn + string" where
  "execute_python_analysis_try execute code =
     (case execute code ''python'' False of
        Inl e \<Rightarrow> Inl e
      | Inr result \<Rightarrow>
          if status result = ''error'' \<or> status result = ''failed''
          then Inr (cross_mark @ '' Execution failed with status: '' @ status result)
          else
            (case collect_lines (outputs result) [] [] of
               (output_lines, error_lines) \<Rightarrow>
                 if result_parts output_lines error_lines \<noteq> []
                 then Inr (check_mark @ '' Analysis complete:\<newline>'' @
                           join ''\<newline>'' (result_parts output_lines error_lines))
                 else
                   Inr (warning_sign @
                        '' Code executed but no output captured. Make sure to use print() statements!'')))"

definition execute_python_analysis :: "execute_call \<Rightarrow> string \<Rightarrow> exn + string" where
  "execute_python_analysis execute code =
     (case execute_python_analysis_try execute code of
        Inl e \<Rightarrow> Inr (cross_mark @ '' Execution failed: '' @ message e)
      | Inr text \<Rightarrow> Inr text)"

section \<open>Text search and trimming\<close>

text \<open>
  \<open>s.index(sub)\<close>: the position of the first occurrence of \<open>sub\<close> in \<open>s\<close>; \<open>None\<close> is the
  \<open>ValueError\<close> that Python raises when there is none.
\<close>

fun str_index :: "string \<Rightarrow> string \<Rightarrow> nat option" where
  "str_index sub [] = (if sub = [] then Some 0 else None)"
| "str_index sub (c # cs) =
     (if prefix sub (c # cs) then Some 0 else map_option Suc (str_index sub cs))"

text \<open>
  \<open>s[start:end]\<close> for two positions that are not negative: empty when \<open>end\<close> is not
  after \<open>start\<close>, cut at the end of \<open>s\<close>.
\<close>

definition slice :: "string \<Rightarrow> nat \<Rightarrow> nat \<Rightarrow> string" where
  "slice s start end = take (end - start) (drop start s)"

text \<open>
  The characters that \<open>str.strip()\<close> removes, each as its UTF-8 bytes: U+0009 to U+000D,
  U+001C to U+0020, U+0085, U+00A0, U+1680, U+2000 to U+200A, U+2028, U+2029, U+202F,
  U+205F and U+3000.
\<close>

definition whitespace :: "string list" where
  "whitespace =
     [[CHR 0x09], [CHR 0x0A], [CHR 0x0B], [CHR 0x0C], [CHR 0x0D],
      [CHR 0x1C], [CHR 0x1D], [CHR 0x1E], [CHR 0x1F], [CHR 0x20],
      [CHR 0xC2, CHR 0x85], [CHR 0xC2, CHR 0xA0],
      [CHR 0xE1, CHR 0x9A, CHR 0x80],
      [CHR 0xE2, CHR 0x80, CHR 0x80], [CHR 0xE2, CHR 0x80, CHR 0x81],
      [CHR 0xE2, CHR 0x80, CHR 0x82], [CHR 0xE2, CHR 0x80, CHR 0x83],
      [CHR 0xE2, CHR 0x80, CHR 0x84], [CHR 0xE2, CHR 0x80, CHR 0x85],
      [CHR 0xE2, CHR 0x80, CHR 0x86], [CHR 0xE2, CHR 0x80, CHR 0x87],
      [CHR 0xE2, CHR 0x80, CHR 0x88], [CHR 0xE2, CHR 0x80, CHR 0x89],
      [CHR 0xE2, CHR 0x80, CHR 0x8A],
      [CHR 0xE2, CHR 0x80, CHR 0xA8], [CHR 0xE2, CHR 0x80, CHR 0xA9],
      [CHR 0xE2, CHR 0x80, CHR 0xAF], [CHR 0xE2, CHR 0x81, CHR 0x9F],
      [CHR 0xE3, CHR 0x80, CHR 0x80]]"

text \<open>\<open>s.strip()\<close>: whitespace characters are dropped at the start, then at the end.\<close>

function lstrip :: "string \<Rightarrow> string" where
  "lstrip s =
     (case find (\<lambda>w. prefix w s) whitespace of
        None \<Rightarrow> s
      | Some w \<Rightarrow> lstrip (drop (length w) s))"
  by pat_completeness auto
termination
proof (relation "measure length")
  show "wf (measure length)" by simp
next
  fix s w
  assume "find (\<lambda>w. prefix w s) whitespace = Some w"
  then have "prefix w s" and "w \<in> set whitespace"
    by (auto simp add: find_Some_iff)
  moreover from \<open>w \<in> set whitespace\<close> have "w \<noteq> []"
    by (auto simp add: whitespace_def)
  ultimately have "0 < length w" and "length w \<le> length s"
    by (auto simp add: prefix_length_le)
  then show "(drop (length w) s, s) \<in> measure length"
    by (cases w) auto
qed

function rstrip :: "string \<Rightarrow> string" where
  "rstrip s =
     (case find (\<lambda>w. suffix w s) whitespace of
        None \<Rightarrow> s
      | Some w \<Rightarrow> rstrip (take (length s - length w) s))"
  by pat_completeness auto
termination
proof (relation "measure length")
  show "wf (measure length)" by simp
next
  fix s w
  assume "find (\<lambda>w. suffix w s) whitespace = Some w"
  then have "suffix w s" and "w \<in> set whitespace"
    by (auto simp add: find_Some_iff)
  moreover from \<open>w \<in> set whitespace\<close> have "w \<noteq> []"
    by (auto simp add: whitespace_def)
  ultimately have "0 < length w" and "length w \<le> length s"
    by (auto simp add: suffix_length_le)
  then show "(take (length s - length w) s, s) \<in> measure length"
    by (cases w) auto
qed

declare lstrip.simps [simp del] rstrip.simps [simp del]

definition strip :: "string \<Rightarrow> string" where
  "strip s = rstrip (lstrip s)"

text \<open>
  \<open>os.path.dirname(p)\<close> of \<open>posixpath\<close>: the path up to its last slash, without the
  slashes at its end unless it consists of slashes only.
\<close>

definition dirname :: "string \<Rightarrow> string" where
  "dirname p =
     (let head = rev (dropWhile (\<lambda>c. c \<noteq> CHR ''/'') (rev p))
      in if head \<noteq> [] \<and> head \<noteq> replicate (length head) (CHR ''/'')
         then rev (dropWhile (\<lambda>c. c = CHR ''/'') (rev head))
         else head)"

section \<open>Base64 of the Python standard library\<close>

text \<open>
  The module \<open>base64\<close> is not part of the repository; \<open>b64encode\<close> and \<open>b64decode\<close> are
  modelled after CPython's \<open>binascii\<close>. A byte is an 8-bit word. A shift is written as a
  multiplication or division by a power of two and a mask as a remainder; where the C code
  joins two bit fields that do not overlap with \<open>|\<close>, the model adds them.
\<close>

type_synonym byte = "8 word"

definition table_b2a_base64 :: string where
  "table_b2a_base64 = ''ABCDEFGHIJKLMNOPQRSTUVWXYZabcdefghijklmnopqrstuvwxyz0123456789+/''"

fun index_of :: "'a \<Rightarrow> 'a list \<Rightarrow> nat option" where
  "index_of x [] = None"
| "index_of x (y # ys) = (if x = y then Some 0 else map_option Suc (index_of x ys))"

text \<open>The value of a character of the alphabet; \<open>None\<close> for any other character.\<close>

definition table_a2b_base64 :: "char \<Rightarrow> nat option" where
  "table_a2b_base64 c = index_of c table_b2a_base64"

text \<open>
  \<open>base64.b64encode(content).decode('utf-8')\<close>: three bytes give four characters; one or two
  bytes left over give two or three characters and padding.
\<close>

fun b64encode :: "byte list \<Rightarrow> string" where
  "b64encode [] = []"
| "b64encode [a] =
     [table_b2a_base64 ! (unat a div 4),
      table_b2a_base64 ! (unat a mod 4 * 16),
      CHR ''='', CHR ''='']"
| "b64encode [a, b] =
     [table_b2a_base64 ! (unat a div 4),
      table_b2a_base64 ! (unat a mod 4 * 16 + unat b div 16),
      table_b2a_base64 ! (unat b mod 16 * 4),
      CHR ''='']"
| "b64encode (a # b # c # rest) =
     [table_b2a_base64 ! (unat a div 4),
      table_b2a_base64 ! (unat a mod 4 * 16 + unat b div 16),
      table_b2a_base64 ! (unat b mod 16 * 4 + unat c div 64),
      table_b2a_base64 ! (unat c mod 64)] @ b64encode rest"

text \<open>
  The loop of \<open>binascii.a2b_base64\<close> in its default, non-strict mode. \<open>quad_pos\<close> counts the
  characters of the current group of four, \<open>leftchar\<close> holds the bits not yet written,
  \<open>pads\<close> counts padding characters, \<open>bin_data\<close> is the output so far. A character outside
  the alphabet is skipped; padding that completes a group ends the decoding, whatever
  follows; input that ends inside a group raises \<open>binascii.Error\<close>.
\<close>

fun a2b_base64 :: "string \<Rightarrow> nat \<Rightarrow> nat \<Rightarrow> nat \<Rightarrow> byte list \<Rightarrow> exn + byte list" where
  "a2b_base64 [] quad_pos leftchar pads bin_data =
     (if quad_pos = 0 then Inr bin_data
      else if quad_pos = 1
      then Inl (Exception (''Invalid base64-encoded string: number of data characters ('' @
                  str_nat (length bin_data div 3 * 4 + 1) @
                  '') cannot be 1 more than a multiple of 4''))
      else Inl (Exception ''Incorrect padding''))"
| "a2b_base64 (this_ch # rest) quad_pos leftchar pads bin_data =
     (if this_ch = CHR ''=''
      then
        (if 2 \<le> quad_pos
         then
           (if 4 \<le> quad_pos + (pads + 1) then Inr bin_data
            else a2b_base64 rest quad_pos leftchar (pads + 1) bin_data)
         else a2b_base64 rest quad_pos leftchar pads bin_data)
      else
        (case table_a2b_base64 this_ch of
           None \<Rightarrow> a2b_base64 rest quad_pos leftchar pads bin_data
         | Some v \<Rightarrow>
             if quad_pos = 0 then a2b_base64 rest 1 v 0 bin_data
             else if quad_pos = 1
             then a2b_base64 rest 2 (v mod 16) 0 (bin_data @ [of_nat (leftchar * 4 + v div 16)])
             else if quad_pos = 2
             then a2b_base64 rest 3 (v mod 4) 0 (bin_data @ [of_nat (leftchar * 16 + v div 4)])
             else a2b_base64 rest 0 0 0 (bin_data @ [of_nat (leftchar * 64 + v)])))"

text \<open>
  \<open>base64.b64decode(s)\<close> on a text: a character that is not ASCII raises \<open>ValueError\<close>,
  otherwise the text is decoded by \<open>a2b_base64\<close>.
\<close>

definition b64decode :: "string \<Rightarrow> exn + byte list" where
  "b64decode s =
     (if \<exists>c \<in> set s. 128 \<le> (of_char c :: nat)
      then Inl (Exception ''string argument should contain only ASCII characters'')
      else a2b_base64 s 0 0 0 [])"

text \<open>A text that holds characters of the Base64 alphabet and padding only.\<close>

definition base64_text :: "string \<Rightarrow> bool" where
  "base64_text s \<longleftrightarrow> set s \<subseteq> insert (CHR ''='') (set table_b2a_base64)"

section \<open>Download of a file from the sandbox\<close>

text \<open>
  The program that \<open>download_file_from_sandbox\<close> sends to the sandbox: the triple-quoted
  f-string of \<open>6-example-data-visualization.py\<close> with \<open>filename\<close> put in twice.
\<close>

definition download_code :: "string \<Rightarrow> string" where
  \<open>download_code filename =
     ''\<newline>import base64\<newline>import os\<newline>\<newline># Check if file exists\<newline>'' @
     ''if not os.path.exists('' @ [CHR 0x27] @ filename @ [CHR 0x27] @ ''):\<newline>'' @
     ''    print("ERROR: File not found")\<newline>'' @
     ''else:\<newline>'' @
     ''    with open('' @ [CHR 0x27] @ filename @ [CHR 0x27] @ '', '' @ [CHR 0x27] @ ''rb'' @ [CHR 0x27] @ '') as f:\<newline>'' @
     ''        content = f.read()\<newline>'' @
     ''        encoded = base64.b64encode(content).decode('' @ [CHR 0x27] @ ''utf-8'' @ [CHR 0x27] @ '')\<newline>'' @
     ''        print("BASE64_START")\<newline>'' @
     ''        print(encoded)\<newline>'' @
     ''        print("BASE64_END")\<newline>''\<close>

text \<open>
  What that program prints in the sandbox: the error line when there is no file at
  \<open>filename\<close> (\<open>None\<close>), otherwise the encoded content between the two sentinel lines.
  Every \<open>print\<close> ends its line.
\<close>

definition sandbox_stdout :: "byte list option \<Rightarrow> string" where
  "sandbox_stdout file =
     (case file of
        None \<Rightarrow> ''ERROR: File not found\<newline>''
      | Some content \<Rightarrow>
          ''BASE64_START\<newline>'' @ b64encode content @ ''\<newline>'' @ ''BASE64_END\<newline>'')"

text \<open>
  What the helper does to the local machine, in order: a line printed, a directory made
  with \<open>os.makedirs(..., exist_ok=True)\<close>, a file opened for writing and filled. The
  operating system is a parameter: it answers a file operation with \<open>None\<close> when the
  operation succeeds and with the exception it raises otherwise.
\<close>

datatype effect = Print string | Makedirs string | Write string "byte list"

type_synonym os_call = "effect \<Rightarrow> exn option"

text \<open>An operating system on which every file operation succeeds.\<close>

definition os_ok :: os_call where
  "os_ok operation = None"

text \<open>
  The symbol that the helper prints in front of its warnings, as the bytes that the source
  file holds.
\<close>

definition warning_mark :: string where
  "warning_mark =
     [CHR 0xE2, CHR 0x80, CHR 0x9A, CHR 0xC3, CHR 0xB6, CHR 0xE2, CHR 0x80, CHR 0xA0,
      CHR 0xC3, CHR 0x94, CHR 0xE2, CHR 0x88, CHR 0x8F, CHR 0xC3, CHR 0xA8]"

text \<open>
  The lines \<open>start = ...\<close>, \<open>end = ...\<close>, \<open>encoded_content = output[start:end].strip()\<close> and
  \<open>decoded_content = base64.b64decode(encoded_content)\<close>: the text strictly between the
  first occurrences of the two sentinels, trimmed and decoded.
\<close>

definition extract_content :: "string \<Rightarrow> exn + byte list" where
  "extract_content output =
     (case str_index ''BASE64_START'' output of
        None \<Rightarrow> Inl (Exception ''substring not found'')
      | Some i \<Rightarrow>
          (case str_index ''BASE64_END'' output of
             None \<Rightarrow> Inl (Exception ''substring not found'')
           | Some end \<Rightarrow>
               b64decode (strip (slice output (i + length ''BASE64_START'') end))))"

text \<open>
  The lines under \<open># Save to local filesystem\<close>: the directory of \<open>local_path\<close> (or \<open>.\<close>) is
  made, then the file is written. The result is what the block raises, if anything, and
  the operations that were completed.
\<close>

definition save_content :: "os_call \<Rightarrow> string \<Rightarrow> byte list \<Rightarrow> exn option \<times> effect list" where
  "save_content os local_path decoded_content =
     (let directory = (if dirname local_path \<noteq> [] then dirname local_path else ''.'')
      in case os (Makedirs directory) of
           Some e \<Rightarrow> (Some e, [])
         | None \<Rightarrow>
             (case os (Write local_path decoded_content) of
                Some e \<Rightarrow> (Some e, [Makedirs directory])
              | None \<Rightarrow> (None, [Makedirs directory, Write local_path decoded_content])))"

text \<open>
  The loop \<open>for output_item in result.data.outputs\<close> of the helper. Only stdout items are
  looked at; the first one that holds the error line or both sentinels ends the loop. The
  result is the value returned or the exception raised, with the effects so far.
\<close>

fun scan_outputs :: "os_call \<Rightarrow> string \<Rightarrow> string \<Rightarrow> OutputItem list \<Rightarrow> (exn + bool) \<times> effect list" where
  "scan_outputs os filename local_path [] = (Inr False, [])"
| "scan_outputs os filename local_path (output_item # rest) =
     (if type output_item = ''stdout''
      then
        (if sublist ''ERROR: File not found'' (data output_item)
         then (Inr False,
               [Print (''   '' @ warning_mark @ ''  File not found in sandbox: '' @ filename)])
         else if sublist ''BASE64_START'' (data output_item) \<and>
                 sublist ''BASE64_END'' (data output_item)
         then
           (case extract_content (data output_item) of
              Inl e \<Rightarrow> (Inl e, [])
            | Inr decoded_content \<Rightarrow>
                (case save_content os local_path decoded_content of
                   (Some e, effects) \<Rightarrow> (Inl e, effects)
                 | (None, effects) \<Rightarrow> (Inr True, effects)))
         else scan_outputs os filename local_path rest)
      else scan_outputs os filename local_path rest)"

text \<open>
  An item on which that loop goes on to the next one: an item that is not a stdout item, or
  a stdout item that holds neither the error line nor both sentinels.
\<close>

definition passed_over :: "OutputItem \<Rightarrow> bool" where
  "passed_over output_item \<longleftrightarrow>
     type output_item \<noteq> ''stdout'' \<or>
     (\<not> sublist ''ERROR: File not found'' (data output_item) \<and>
      \<not> (sublist ''BASE64_START'' (data output_item) \<and>
         sublist ''BASE64_END'' (data output_item)))"

text \<open>
  \<open>download_file_from_sandbox\<close>: the body of its \<open>try\<close>, and the function with the handler
  \<open>except Exception as e\<close>, which prints the error and returns \<open>False\<close>.
\<close>

definition download_file_from_sandbox_try ::
    "os_call \<Rightarrow> execute_call \<Rightarrow> string \<Rightarrow> string \<Rightarrow> (exn + bool) \<times> effect list" where
  "download_file_from_sandbox_try os execute filename local_path =
     (case execute (download_code filename) ''python'' False of
        Inl e \<Rightarrow> (Inl e, [])
      | Inr result \<Rightarrow> scan_outputs os filename local_path (outputs result))"

definition download_file_from_sandbox ::
    "os_call \<Rightarrow> execute_call \<Rightarrow> string \<Rightarrow> string \<Rightarrow> (exn + bool) \<times> effect list" where
  "download_file_from_sandbox os execute filename local_path =
     (case download_file_from_sandbox_try os execute filename local_path of
        (Inl e, effects) \<Rightarrow>
          (Inr False,
           effects @ [Print (''   '' @ warning_mark @ ''  Download error: '' @ message e)])
      | (Inr returned, effects) \<Rightarrow> (Inr returned, effects))"

section \<open>Properties of the tool adapters\<close>

lemma collect_lines_filter:
  "collect_lines items output_lines error_lines =
     (output_lines @ map data (filter (\<lambda>i. type i = ''stdout'') items),
      error_lines @ map data (filter (\<lambda>i. type i \<noteq> ''stdout'' \<and> type i = ''stderr'') items))"
  by (induction items arbitrary: output_lines error_lines) simp_all


text \<open>
  What \<open>execute_code\<close> returns once the remote call has answered: the status check first,
  then the two blocks, then the message for a run without output.
\<close>

lemma execute_code_on_result:
  assumes "execute code language False = Inr r"
  shows "execute_code execute code language =
     (if status r = ''error'' \<or> status r = ''failed''
      then Inr (''Execution failed with status: '' @ status r)
      else if result_parts (map data (filter (\<lambda>i. type i = ''stdout'') (outputs r)))
                (map data (filter (\<lambda>i. type i \<noteq> ''stdout'' \<and> type i = ''stderr'') (outputs r))) \<noteq> []
      then Inr (join ''\<newline>\<newline>''
             (result_parts (map data (filter (\<lambda>i. type i = ''stdout'') (outputs r)))
                (map data (filter (\<lambda>i. type i \<noteq> ''stdout'' \<and> type i = ''stderr'') (outputs r)))))
      else Inr (''Code executed successfully (status: '' @ status r @
                '', execution time: '' @
                str_int (case execution_time_ms r of None \<Rightarrow> 0 | Some t \<Rightarrow> t) @
                ''ms) but produced no output.''))"
  using assms by (simp add: execute_code_def execute_code_try_def collect_lines_filter)

lemma execute_code_on_exception:
  assumes "execute code language False = Inl e"
  shows "execute_code execute code language = Inr (''Error executing code: '' @ message e)"
  using assms by (simp add: execute_code_def execute_code_try_def)

lemma execute_code_with_network_on_result:
  assumes "execute code language True = Inr r"
  shows "execute_code_with_network execute code language =
     (if status r = ''error'' \<or> status r = ''failed''
      then Inr (''Execution failed with status: '' @ status r)
      else if result_parts (map data (filter (\<lambda>i. type i = ''stdout'') (outputs r)))
                (map data (filter (\<lambda>i. type i \<noteq> ''stdout'' \<and> type i = ''stderr'') (outputs r))) \<noteq> []
      then Inr (join ''\<newline>\<newline>''
             (result_parts (map data (filter (\<lambda>i. type i = ''stdout'') (outputs r)))
                (map data (filter (\<lambda>i. type i \<noteq> ''stdout'' \<and> type i = ''stderr'') (outputs r)))))
      else Inr (''Code executed successfully (status: '' @ status r @
                '') but produced no output.''))"
  using assms
  by (simp add: execute_code_with_network_def execute_code_with_network_try_def collect_lines_filter)

lemma execute_python_analysis_on_result:
  assumes "execute code ''python'' False = Inr r"
  shows "execute_python_analysis execute code =
     (if status r = ''error'' \<or> status r = ''failed''
      then Inr (cross_mark @ '' Execution failed with status: '' @ status r)
      else if result_parts (map data (filter (\<lambda>i. type i = ''stdout'') (outputs r)))
                (map data (filter (\<lambda>i. type i \<noteq> ''stdout'' \<and> type i = ''stderr'') (outputs r))) \<noteq> []
      then Inr (check_mark @ '' Analysis complete:\<newline>'' @ join ''\<newline>''
             (result_parts (map data (filter (\<lambda>i. type i = ''stdout'') (outputs r)))
                (map data (filter (\<lambda>i. type i \<noteq> ''stdout'' \<and> type i = ''stderr'') (outputs r)))))
      else Inr (warning_sign @
                '' Code executed but no output captured. Make sure to use print() statements!''))"
  using assms
  by (simp add: execute_python_analysis_def execute_python_analysis_try_def collect_lines_filter)

lemma stderr_filter_eq:
  "filter (\<lambda>i. type i \<noteq> ''stdout'' \<and> type i = ''stderr'') items =
   filter (\<lambda>i. type i = ''stderr'') items"
  by (rule filter_cong) auto

subsection \<open>A failing status\<close>

text \<open>
  C1, as amended. When the remote call answers with status \<open>error\<close> or \<open>failed\<close>,
  \<open>execute_code\<close> returns exactly the text \<open>Execution failed with status: \<close> followed by
  the status. The text contains the status, and the outputs of the result take no part in
  it: whatever they are, empty or not, the same text is returned.
\<close>

theorem execute_code_failing_status:
  assumes "execute code language False = Inr r"
    and "status r = ''error'' \<or> status r = ''failed''"
  shows "execute_code execute code language = Inr (''Execution failed with status: '' @ status r)
    \<and> sublist (status r) (''Execution failed with status: '' @ status r)"
proof
  show "execute_code execute code language = Inr (''Execution failed with status: '' @ status r)"
    using assms by (simp add: execute_code_on_result)
  show "sublist (status r) (''Execution failed with status: '' @ status r)"
    by (rule suffix_imp_sublist) (rule suffixI, rule refl)
qed

text \<open>
  C1, witness: a run with status \<open>error\<close> that had printed \<open>partial\<close> before it failed.
\<close>

theorem execute_code_failing_status_witness:
  "execute_code (fixed_execute (Inr \<lparr>status = ''error'', outputs = [\<lparr>type = ''stdout'', data = ''partial''\<rparr>], execution_time_ms = None\<rparr>)) ''print(1)'' ''python''
    = Inr ''Execution failed with status: error''"
  using execute_code_failing_status [of "fixed_execute (Inr \<lparr>status = ''error'', outputs = [\<lparr>type = ''stdout'', data = ''partial''\<rparr>], execution_time_ms = None\<rparr>)" "''print(1)''" "''python''"
     "\<lparr>status = ''error'', outputs = [\<lparr>type = ''stdout'', data = ''partial''\<rparr>], execution_time_ms = None\<rparr>"]
  by (simp add: fixed_execute_def)

text \<open>
  C1, counterexample to "the text contains none of the stdout data": a run with status
  \<open>failed\<close> whose program had printed \<open>failed\<close>. The returned text is the fixed failure
  message, and the stdout data occurs in it.
\<close>

theorem execute_code_failing_status_counterexample:
  "execute_code (fixed_execute (Inr \<lparr>status = ''failed'', outputs = [\<lparr>type = ''stdout'', data = ''failed''\<rparr>], execution_time_ms = None\<rparr>)) ''print(1)'' ''python''
    = Inr ''Execution failed with status: failed''
   \<and> sublist ''failed'' ''Execution failed with status: failed''"
proof
  show "execute_code (fixed_execute (Inr \<lparr>status = ''failed'', outputs = [\<lparr>type = ''stdout'', data = ''failed''\<rparr>], execution_time_ms = None\<rparr>)) ''print(1)'' ''python''
    = Inr ''Execution failed with status: failed''"
    by (simp add: execute_code_def execute_code_try_def fixed_execute_def)
  show "sublist ''failed'' ''Execution failed with status: failed''"
    by code_simp
qed

subsection \<open>Exactly one text, never an exception\<close>

text \<open>
  C2. For every code, every language and every behaviour of the remote call,
  \<open>execute_code\<close> returns a text (\<open>Inr\<close>) and never raises (\<open>Inl\<close>). When the remote call
  raises \<open>e\<close>, the text is \<open>Error executing code: \<close> followed by \<open>str(e)\<close>, so it embeds the
  message of the exception.
\<close>

theorem execute_code_never_raises:
  "(\<exists>text. execute_code execute code language = Inr text) \<and>
   (execute code language False = Inl e \<longrightarrow>
      execute_code execute code language = Inr (''Error executing code: '' @ message e) \<and>
      sublist (message e) (''Error executing code: '' @ message e))"
proof (intro conjI impI)
  show "\<exists>text. execute_code execute code language = Inr text"
    by (cases "execute code language False")
       (simp_all add: execute_code_on_exception execute_code_on_result)
next
  assume "execute code language False = Inl e"
  then show "execute_code execute code language = Inr (''Error executing code: '' @ message e)"
    by (rule execute_code_on_exception)
next
  show "sublist (message e) (''Error executing code: '' @ message e)"
    by (rule suffix_imp_sublist) (rule suffixI, rule refl)
qed

text \<open>C2, witness: the remote call raises with the message \<open>connection timed out\<close>.\<close>

theorem execute_code_never_raises_witness:
  "execute_code (fixed_execute (Inl (Exception ''connection timed out''))) ''print(1)'' ''python''
     = Inr ''Error executing code: connection timed out'' \<and>
   sublist ''connection timed out'' ''Error executing code: connection timed out''"
  using execute_code_never_raises
    [of "fixed_execute (Inl (Exception ''connection timed out''))" "''print(1)''" "''python''"
        "Exception ''connection timed out''"]
  by (simp add: fixed_execute_def)

subsection \<open>Output on a run that did not fail\<close>

text \<open>
  C3, as amended. For a result with a status other than \<open>error\<close> and \<open>failed\<close> whose
  outputs are exactly the two stdout items \<open>a\<close> and \<open>b\<close>, \<open>execute_code\<close> and
  \<open>execute_code_with_network\<close> return the text \<open>a\<close>, newline, \<open>b\<close> and nothing else;
  \<open>execute_python_analysis\<close> returns the same two lines after its own first line
  \<open>Analysis complete:\<close>, which starts with a check mark.
\<close>

theorem adapters_two_stdout_items:
  assumes "execute code language False = Inr r"
    and "execute code language True = Inr r"
    and "execute code ''python'' False = Inr r"
    and "status r \<noteq> ''error''" and "status r \<noteq> ''failed''"
    and "outputs r = [\<lparr>type = ''stdout'', data = ''a''\<rparr>, \<lparr>type = ''stdout'', data = ''b''\<rparr>]"
  shows "execute_code execute code language = Inr ''a\<newline>b'' \<and>
         execute_code_with_network execute code language = Inr ''a\<newline>b'' \<and>
         execute_python_analysis execute code =
           Inr (check_mark @ '' Analysis complete:\<newline>a\<newline>b'')"
  using assms
  by (simp add: execute_code_on_result execute_code_with_network_on_result
        execute_python_analysis_on_result result_parts_def)

text \<open>C3, witness: a run with status \<open>succeeded\<close> that printed \<open>a\<close> and then \<open>b\<close>.\<close>

theorem adapters_two_stdout_items_witness:
  "execute_code (fixed_execute (Inr \<lparr>status = ''succeeded'', outputs = [\<lparr>type = ''stdout'', data = ''a''\<rparr>, \<lparr>type = ''stdout'', data = ''b''\<rparr>], execution_time_ms = Some 12\<rparr>)) ''print(1)'' ''python'' = Inr ''a\<newline>b'' \<and>
   execute_code_with_network (fixed_execute (Inr \<lparr>status = ''succeeded'', outputs = [\<lparr>type = ''stdout'', data = ''a''\<rparr>, \<lparr>type = ''stdout'', data = ''b''\<rparr>], execution_time_ms = Some 12\<rparr>)) ''print(1)'' ''python'' = Inr ''a\<newline>b'' \<and>
   execute_python_analysis (fixed_execute (Inr \<lparr>status = ''succeeded'', outputs = [\<lparr>type = ''stdout'', data = ''a''\<rparr>, \<lparr>type = ''stdout'', data = ''b''\<rparr>], execution_time_ms = Some 12\<rparr>)) ''print(1)'' =
     Inr (check_mark @ '' Analysis complete:\<newline>a\<newline>b'')"
  using adapters_two_stdout_items
    [of "fixed_execute (Inr \<lparr>status = ''succeeded'', outputs = [\<lparr>type = ''stdout'', data = ''a''\<rparr>, \<lparr>type = ''stdout'', data = ''b''\<rparr>], execution_time_ms = Some 12\<rparr>)"
        "''print(1)''" "''python''"
        "\<lparr>status = ''succeeded'', outputs = [\<lparr>type = ''stdout'', data = ''a''\<rparr>, \<lparr>type = ''stdout'', data = ''b''\<rparr>], execution_time_ms = Some 12\<rparr>"]
  by (simp add: fixed_execute_def)

text \<open>
  C3, counterexample to "each variant returns \<open>a\<close>, newline, \<open>b\<close> exactly": on that very
  result \<open>execute_python_analysis\<close> returns a text with a prefix, which is a different text.
\<close>

theorem execute_python_analysis_prefix_counterexample:
  "execute_python_analysis (fixed_execute (Inr \<lparr>status = ''succeeded'', outputs = [\<lparr>type = ''stdout'', data = ''a''\<rparr>, \<lparr>type = ''stdout'', data = ''b''\<rparr>], execution_time_ms = Some 12\<rparr>)) ''print(1)''
     = Inr (check_mark @ '' Analysis complete:\<newline>a\<newline>b'') \<and>
   check_mark @ '' Analysis complete:\<newline>a\<newline>b'' \<noteq> ''a\<newline>b''"
  by (simp add: execute_python_analysis_def execute_python_analysis_try_def fixed_execute_def
        result_parts_def check_mark_def)

text \<open>
  C4. For a result with a status other than \<open>error\<close> and \<open>failed\<close> whose outputs hold no
  stdout item and no stderr item, \<open>execute_code\<close> returns the message that the code was
  executed successfully but produced no output; the message carries the status and the
  execution time in milliseconds (0 when the result has none).
\<close>

theorem execute_code_no_output:
  assumes "execute code language False = Inr r"
    and "status r \<noteq> ''error''" and "status r \<noteq> ''failed''"
    and "\<forall>i \<in> set (outputs r). type i \<noteq> ''stdout'' \<and> type i \<noteq> ''stderr''"
  shows "execute_code execute code language =
           Inr (''Code executed successfully (status: '' @ status r @ '', execution time: '' @
                str_int (case execution_time_ms r of None \<Rightarrow> 0 | Some t \<Rightarrow> t) @
                ''ms) but produced no output.'')"
proof -
  have "filter (\<lambda>i. type i = ''stdout'') (outputs r) = []"
    and "filter (\<lambda>i. type i \<noteq> ''stdout'' \<and> type i = ''stderr'') (outputs r) = []"
    using assms(4) by (simp_all add: filter_empty_conv)
  then show ?thesis
    using assms(1-3) by (simp add: execute_code_on_result result_parts_def)
qed

text \<open>
  C4, witness: a run with status \<open>succeeded\<close> that took 42 ms and whose only output item
  is neither stdout nor stderr.
\<close>

theorem execute_code_no_output_witness:
  "execute_code (fixed_execute (Inr \<lparr>status = ''succeeded'', outputs = [\<lparr>type = ''log'', data = ''started''\<rparr>], execution_time_ms = Some 42\<rparr>)) ''x = 1'' ''python''
     = Inr ''Code executed successfully (status: succeeded, execution time: 42ms) but produced no output.''"
  using execute_code_no_output
    [of "fixed_execute (Inr \<lparr>status = ''succeeded'', outputs = [\<lparr>type = ''log'', data = ''started''\<rparr>], execution_time_ms = Some 42\<rparr>)"
        "''x = 1''" "''python''"
        "\<lparr>status = ''succeeded'', outputs = [\<lparr>type = ''log'', data = ''started''\<rparr>], execution_time_ms = Some 42\<rparr>"]
  by (simp add: fixed_execute_def str_int_def str_nat.simps digit_char_def)

text \<open>
  C5. For a result with a status other than \<open>error\<close> and \<open>failed\<close> whose stdout items are
  \<open>x\<close> and whose stderr items are \<open>boom\<close>, in either order, \<open>execute_code\<close> returns the
  stdout block \<open>x\<close> first, then a blank line, then the error block: the header \<open>Errors:\<close>
  on a line of its own and \<open>boom\<close> under it.
\<close>

theorem execute_code_stdout_then_errors:
  assumes "execute code language False = Inr r"
    and "status r \<noteq> ''error''" and "status r \<noteq> ''failed''"
    and "map data (filter (\<lambda>i. type i = ''stdout'') (outputs r)) = [''x'']"
    and "map data (filter (\<lambda>i. type i = ''stderr'') (outputs r)) = [''boom'']"
  shows "execute_code execute code language =
           Inr (''x'' @ ''\<newline>\<newline>'' @ ''Errors:\<newline>'' @ ''boom'')"
  using assms by (simp add: execute_code_on_result result_parts_def stderr_filter_eq)

text \<open>C5, witness: the stderr item arrives before the stdout item.\<close>

theorem execute_code_stdout_then_errors_witness:
  "execute_code (fixed_execute (Inr \<lparr>status = ''succeeded'', outputs = [\<lparr>type = ''stderr'', data = ''boom''\<rparr>, \<lparr>type = ''stdout'', data = ''x''\<rparr>], execution_time_ms = None\<rparr>)) ''print(1)'' ''python''
     = Inr ''x\<newline>\<newline>Errors:\<newline>boom''"
  using execute_code_stdout_then_errors
    [of "fixed_execute (Inr \<lparr>status = ''succeeded'', outputs = [\<lparr>type = ''stderr'', data = ''boom''\<rparr>, \<lparr>type = ''stdout'', data = ''x''\<rparr>], execution_time_ms = None\<rparr>)"
        "''print(1)''" "''python''"
        "\<lparr>status = ''succeeded'', outputs = [\<lparr>type = ''stderr'', data = ''boom''\<rparr>, \<lparr>type = ''stdout'', data = ''x''\<rparr>], execution_time_ms = None\<rparr>"]
  by (simp add: fixed_execute_def)



section \<open>Properties of Base64 and of the text helpers\<close>

lemma length_table_b2a_base64: "length table_b2a_base64 = 64"
  by (simp add: table_b2a_base64_def)

lemma distinct_table_b2a_base64: "distinct table_b2a_base64"
  by (simp add: table_b2a_base64_def)

lemma index_of_nth:
  "distinct xs \<Longrightarrow> n < length xs \<Longrightarrow> index_of (xs ! n) xs = Some n"
proof (induction xs arbitrary: n)
  case Nil
  then show ?case by simp
next
  case (Cons x xs)
  then show ?case by (cases n) auto
qed

lemma table_a2b_b2a:
  "n < 64 \<Longrightarrow> table_a2b_base64 (table_b2a_base64 ! n) = Some n"
  by (simp add: table_a2b_base64_def index_of_nth distinct_table_b2a_base64
        length_table_b2a_base64)

lemma table_nth_in_set: "n < 64 \<Longrightarrow> table_b2a_base64 ! n \<in> set table_b2a_base64"
  by (simp add: length_table_b2a_base64)

lemma table_not_pad: "c \<in> set table_b2a_base64 \<Longrightarrow> c \<noteq> CHR ''=''"
  by (auto simp add: table_b2a_base64_def)

lemma unat_byte_less: "unat (a :: byte) < 256"
  using unsigned_less [of a] by simp

lemma sextets:
  fixes a b c :: byte
  shows "unat a div 4 < 64"
    and "unat a mod 4 * 16 < 64"
    and "unat a mod 4 * 16 + unat b div 16 < 64"
    and "unat b mod 16 * 4 < 64"
    and "unat b mod 16 * 4 + unat c div 64 < 64"
    and "unat c mod 64 < 64"
  using unat_byte_less [of a] unat_byte_less [of b] unat_byte_less [of c]
  by simp_all


lemma byte0:
  fixes a b :: byte
  shows "of_nat (unat a div 4 * 4 + (unat a mod 4 * 16 + unat b div 16) div 16) = a"
proof -
  have "unat b div 16 < 16" using unat_byte_less [of b] by simp
  then have "(unat a mod 4 * 16 + unat b div 16) div 16 = unat a mod 4" by simp
  then show ?thesis by simp
qed

lemma byte0_last:
  fixes a :: byte
  shows "of_nat (unat a div 4 * 4 + unat a mod 4 * 16 div 16) = a"
  by simp

lemma byte1:
  fixes a b c :: byte
  shows "of_nat ((unat a mod 4 * 16 + unat b div 16) mod 16 * 16 +
                 (unat b mod 16 * 4 + unat c div 64) div 4) = b"
proof -
  have "unat b div 16 < 16" using unat_byte_less [of b] by simp
  then have "(unat a mod 4 * 16 + unat b div 16) mod 16 = unat b div 16" by simp
  moreover have "unat c div 64 < 4" using unat_byte_less [of c] by simp
  then have "(unat b mod 16 * 4 + unat c div 64) div 4 = unat b mod 16" by simp
  ultimately show ?thesis by simp
qed

lemma byte1_last:
  fixes a b :: byte
  shows "of_nat ((unat a mod 4 * 16 + unat b div 16) mod 16 * 16 +
                 unat b mod 16 * 4 div 4) = b"
proof -
  have "unat b div 16 < 16" using unat_byte_less [of b] by simp
  then have "(unat a mod 4 * 16 + unat b div 16) mod 16 = unat b div 16" by simp
  then show ?thesis by simp
qed

lemma byte2:
  fixes b c :: byte
  shows "of_nat ((unat b mod 16 * 4 + unat c div 64) mod 4 * 64 + unat c mod 64) = c"
proof -
  have "unat c div 64 < 4" using unat_byte_less [of c] by simp
  then have "(unat b mod 16 * 4 + unat c div 64) mod 4 = unat c div 64" by simp
  then show ?thesis by simp
qed

lemma a2b_base64_symbol:
  assumes "v < 64"
  shows "a2b_base64 (table_b2a_base64 ! v # rest) quad_pos leftchar pads bin_data =
     (if quad_pos = 0 then a2b_base64 rest 1 v 0 bin_data
      else if quad_pos = 1
      then a2b_base64 rest 2 (v mod 16) 0 (bin_data @ [of_nat (leftchar * 4 + v div 16)])
      else if quad_pos = 2
      then a2b_base64 rest 3 (v mod 4) 0 (bin_data @ [of_nat (leftchar * 16 + v div 4)])
      else a2b_base64 rest 0 0 0 (bin_data @ [of_nat (leftchar * 64 + v)]))"
  using assms table_not_pad [OF table_nth_in_set [OF assms]]
  by (simp add: table_a2b_b2a)

lemma a2b_base64_pad:
  "a2b_base64 (CHR ''='' # rest) quad_pos leftchar pads bin_data =
     (if 2 \<le> quad_pos
      then (if 4 \<le> quad_pos + (pads + 1) then Inr bin_data
            else a2b_base64 rest quad_pos leftchar (pads + 1) bin_data)
      else a2b_base64 rest quad_pos leftchar pads bin_data)"
  by simp

lemma a2b_base64_b64encode:
  "a2b_base64 (b64encode content) 0 0 0 bin_data = Inr (bin_data @ content)"
proof (induction content arbitrary: bin_data rule: b64encode.induct)
  case 1
  then show ?case by simp
next
  case (2 a)
  define s0 s1 where "s0 = unat a div 4" and "s1 = unat a mod 4 * 16"
  have less: "s0 < 64" "s1 < 64"
    unfolding s0_def s1_def by (rule sextets)+
  have bytes: "of_nat (s0 * 4 + s1 div 16) = a"
    unfolding s0_def s1_def by (rule byte0_last)
  have enc: "b64encode [a] = [table_b2a_base64 ! s0, table_b2a_base64 ! s1, CHR ''='', CHR ''='']"
    by (simp add: s0_def s1_def)
  show ?case
    unfolding enc
    by (simp add: a2b_base64_symbol a2b_base64_pad less bytes del: a2b_base64.simps(2) of_nat_add of_nat_mult)
next
  case (3 a b)
  define s0 s1 s2 where "s0 = unat a div 4" and "s1 = unat a mod 4 * 16 + unat b div 16"
    and "s2 = unat b mod 16 * 4"
  have less: "s0 < 64" "s1 < 64" "s2 < 64"
    unfolding s0_def s1_def s2_def by (rule sextets)+
  have bytes: "of_nat (s0 * 4 + s1 div 16) = a" "of_nat (s1 mod 16 * 16 + s2 div 4) = b"
    unfolding s0_def s1_def s2_def by (rule byte0, rule byte1_last)
  have enc: "b64encode [a, b] =
      [table_b2a_base64 ! s0, table_b2a_base64 ! s1, table_b2a_base64 ! s2, CHR ''='']"
    by (simp add: s0_def s1_def s2_def)
  show ?case
    unfolding enc
    by (simp add: a2b_base64_symbol a2b_base64_pad less bytes del: a2b_base64.simps(2) of_nat_add of_nat_mult)
next
  case (4 a b c rest)
  define s0 s1 s2 s3 where "s0 = unat a div 4" and "s1 = unat a mod 4 * 16 + unat b div 16"
    and "s2 = unat b mod 16 * 4 + unat c div 64" and "s3 = unat c mod 64"
  have less: "s0 < 64" "s1 < 64" "s2 < 64" "s3 < 64"
    unfolding s0_def s1_def s2_def s3_def by (rule sextets)+
  have bytes: "of_nat (s0 * 4 + s1 div 16) = a" "of_nat (s1 mod 16 * 16 + s2 div 4) = b"
    "of_nat (s2 mod 4 * 64 + s3) = c"
    unfolding s0_def s1_def s2_def s3_def by (rule byte0, rule byte1, rule byte2)
  have enc: "b64encode (a # b # c # rest) =
      table_b2a_base64 ! s0 # table_b2a_base64 ! s1 # table_b2a_base64 ! s2 #
      table_b2a_base64 ! s3 # b64encode rest"
    by (simp add: s0_def s1_def s2_def s3_def)
  show ?case
    unfolding enc
    by (simp add: a2b_base64_symbol less bytes "4.IH" del: a2b_base64.simps(2) of_nat_add of_nat_mult)
qed


lemma set_b64encode:
  "set (b64encode content) \<subseteq> insert (CHR ''='') (set table_b2a_base64)"
proof (induction content rule: b64encode.induct)
  case 1
  then show ?case by simp
next
  case (2 a)
  show ?case by (simp add: table_nth_in_set sextets)
next
  case (3 a b)
  show ?case by (simp add: table_nth_in_set sextets)
next
  case (4 a b c rest)
  then show ?case by (simp add: table_nth_in_set sextets)
qed

lemma base64_char_facts:
  assumes "c \<in> insert (CHR ''='') (set table_b2a_base64)"
  shows "(of_char c :: nat) < 128"
    and "c \<noteq> CHR ''_''" and "c \<noteq> CHR '' ''" and "c \<noteq> CHR 0x0A"
    and "\<forall>w \<in> set whitespace. hd w \<noteq> c \<and> last w \<noteq> c"
  using assms by (auto simp add: table_b2a_base64_def whitespace_def)

lemma whitespace_nonempty: "w \<in> set whitespace \<Longrightarrow> w \<noteq> []"
  by (auto simp add: whitespace_def)

lemma b64decode_b64encode: "b64decode (b64encode content) = Inr content"
proof -
  have "\<not> (\<exists>c \<in> set (b64encode content). 128 \<le> (of_char c :: nat))"
    using set_b64encode [of content] base64_char_facts(1) by fastforce
  then show ?thesis
    by (simp add: b64decode_def a2b_base64_b64encode)
qed

lemma lstrip_no_space:
  assumes "s = [] \<or> hd s \<in> insert (CHR ''='') (set table_b2a_base64)"
  shows "lstrip s = s"
proof -
  have "\<not> (\<exists>w. w \<in> set whitespace \<and> prefix w s)"
  proof
    assume "\<exists>w. w \<in> set whitespace \<and> prefix w s"
    then obtain w where w: "w \<in> set whitespace" "prefix w s" by blast
    then have "w \<noteq> []" by (simp add: whitespace_nonempty)
    with w(2) have "s \<noteq> []" and "hd w = hd s"
      by (auto simp add: prefix_def)
    with assms w(1) show False
      using base64_char_facts(5) by blast
  qed
  then have "find (\<lambda>w. prefix w s) whitespace = None"
    by (simp add: find_None_iff)
  then show ?thesis
    by (simp add: lstrip.simps)
qed

lemma rstrip_no_space:
  assumes "s = [] \<or> last s \<in> insert (CHR ''='') (set table_b2a_base64)"
  shows "rstrip s = s"
proof -
  have "\<not> (\<exists>w. w \<in> set whitespace \<and> suffix w s)"
  proof
    assume "\<exists>w. w \<in> set whitespace \<and> suffix w s"
    then obtain w where w: "w \<in> set whitespace" "suffix w s" by blast
    then have "w \<noteq> []" by (simp add: whitespace_nonempty)
    with w(2) have "s \<noteq> []" and "last w = last s"
      by (auto simp add: suffix_def)
    with assms w(1) show False
      using base64_char_facts(5) by blast
  qed
  then have "find (\<lambda>w. suffix w s) whitespace = None"
    by (simp add: find_None_iff)
  then show ?thesis
    by (simp add: rstrip.simps)
qed

lemma lstrip_newline: "lstrip (CHR 0x0A # s) = lstrip s"
  by (subst lstrip.simps) (simp add: whitespace_def)

lemma rstrip_newline: "rstrip (s @ [CHR 0x0A]) = rstrip s"
  by (subst rstrip.simps) (simp add: whitespace_def)

lemma strip_line:
  assumes "set s \<subseteq> insert (CHR ''='') (set table_b2a_base64)"
  shows "strip (CHR 0x0A # s @ [CHR 0x0A]) = s"
proof (cases "s = []")
  case True
  have "lstrip [] = []" by (rule lstrip_no_space) simp
  moreover have "rstrip [] = []" by (rule rstrip_no_space) simp
  ultimately show ?thesis
    using True by (simp add: strip_def lstrip_newline)
next
  case False
  then have "hd s \<in> set s" and "last s \<in> set s" by simp_all
  with assms have "hd s \<in> insert (CHR ''='') (set table_b2a_base64)"
    and l: "last s \<in> insert (CHR ''='') (set table_b2a_base64)"
    by blast+
  with False have h: "hd (s @ [CHR 0x0A]) \<in> insert (CHR ''='') (set table_b2a_base64)"
    by simp
  have "lstrip (s @ [CHR 0x0A]) = s @ [CHR 0x0A]"
    by (rule lstrip_no_space) (use h in blast)
  moreover have "rstrip s = s"
    by (rule rstrip_no_space) (use l in blast)
  ultimately show ?thesis
    by (simp add: strip_def lstrip_newline rstrip_newline)
qed


lemma str_index_prefix: "prefix sub s \<Longrightarrow> str_index sub s = Some 0"
  by (cases s) auto

lemma str_index_first:
  assumes "\<forall>i < length p. \<not> prefix sub (drop i (p @ sub @ post))"
  shows "str_index sub (p @ sub @ post) = Some (length p)"
  using assms
proof (induction p)
  case Nil
  show ?case by (simp add: str_index_prefix)
next
  case (Cons c p)
  from Cons.prems have "\<not> prefix sub (drop 0 ((c # p) @ sub @ post))"
    by blast
  then have first: "\<not> prefix sub (c # p @ sub @ post)" by simp
  have "\<forall>i < length p. \<not> prefix sub (drop i (p @ sub @ post))"
  proof (intro allI impI)
    fix i assume "i < length p"
    then have "Suc i < length (c # p)" by simp
    with Cons.prems have "\<not> prefix sub (drop (Suc i) ((c # p) @ sub @ post))" by blast
    then show "\<not> prefix sub (drop i (p @ sub @ post))" by simp
  qed
  then have "str_index sub (p @ sub @ post) = Some (length p)"
    by (rule Cons.IH)
  with first show ?case by simp
qed

lemma no_early_match:
  assumes "c \<notin> set p" and "k < length sub" and "sub ! k = c"
    and "\<forall>j < k. sub ! j \<noteq> c" and "i < length p"
  shows "\<not> prefix sub (drop i (p @ sub @ post))"
proof
  assume "prefix sub (drop i (p @ sub @ post))"
  then obtain zs where zs: "drop i (p @ sub @ post) = sub @ zs"
    by (auto simp add: prefix_def)
  have dk: "(drop i (p @ sub @ post)) ! k = c"
    unfolding zs using assms(2,3) by (simp add: nth_append)
  have "i \<le> length (p @ sub @ post)"
    using assms(5) by simp
  then have "drop i (p @ sub @ post) ! k = (p @ sub @ post) ! (i + k)"
    by (rule nth_drop)
  with dk have at: "(p @ sub @ post) ! (i + k) = c"
    by (simp only:)
  show False
  proof (cases "i + k < length p")
    case True
    then have "p ! (i + k) = c" using at by (simp add: nth_append)
    with True assms(1) show False by (metis nth_mem)
  next
    case False
    then have "i + k - length p < k" using assms(5) by simp
    moreover from this assms(2) have "(p @ sub @ post) ! (i + k) = sub ! (i + k - length p)"
      using False by (simp add: nth_append)
    ultimately show False using at assms(4) by metis
  qed
qed

lemma str_index_END:
  assumes "CHR ''_'' \<notin> set p"
  shows "str_index ''BASE64_END'' (p @ ''BASE64_END'' @ post) = Some (length p)"
proof (rule str_index_first, intro allI impI)
  fix i assume "i < length p"
  have "\<forall>j < 6. ''BASE64_END'' ! j \<noteq> CHR ''_''"
  proof (intro allI impI)
    fix j :: nat assume "j < 6"
    then have "j \<in> {0, 1, 2, 3, 4, 5}" by auto
    then show "''BASE64_END'' ! j \<noteq> CHR ''_''" by auto
  qed
  then show "\<not> prefix ''BASE64_END'' (drop i (p @ ''BASE64_END'' @ post))"
    using assms \<open>i < length p\<close>
    by (intro no_early_match [where c = "CHR ''_''" and k = 6]) simp_all
qed

lemma str_index_END_framed:
  assumes "CHR ''_'' \<notin> set enc"
  shows "str_index ''BASE64_END''
           (''BASE64_START\<newline>'' @ enc @ ''\<newline>'' @ ''BASE64_END'' @ post) =
         Some (14 + length enc)"
proof -
  have "CHR ''_'' \<notin> set (enc @ ''\<newline>'')"
    using assms by simp
  then have "str_index ''BASE64_END'' ((enc @ ''\<newline>'') @ ''BASE64_END'' @ post) =
      Some (length (enc @ ''\<newline>''))"
    by (rule str_index_END)
  then show ?thesis by simp
qed

lemma str_index_START_framed:
  "str_index ''BASE64_START'' (''BASE64_START\<newline>'' @ rest) = Some 0"
  by (rule str_index_prefix) simp

lemma slice_framed:
  "slice (''BASE64_START\<newline>'' @ enc @ ''\<newline>'' @ ''BASE64_END'' @ post)
     (0 + length ''BASE64_START'') (14 + length enc) = CHR 0x0A # enc @ [CHR 0x0A]"
proof -
  have "take (Suc (Suc (length enc))) (CHR 0x0A # enc @ CHR 0x0A # ''BASE64_END'' @ post) =
        CHR 0x0A # enc @ [CHR 0x0A]"
    by simp
  then show ?thesis
    by (simp add: slice_def)
qed

lemma extract_content_framed:
  assumes "set enc \<subseteq> insert (CHR ''='') (set table_b2a_base64)"
  shows "extract_content
           (''BASE64_START\<newline>'' @ enc @ ''\<newline>'' @ ''BASE64_END'' @ post) =
         b64decode enc"
proof -
  have "CHR ''_'' \<notin> set enc"
    using assms base64_char_facts(2) by blast
  then have e: "str_index ''BASE64_END''
      (''BASE64_START\<newline>'' @ enc @ ''\<newline>'' @ ''BASE64_END'' @ post) = Some (14 + length enc)"
    by (rule str_index_END_framed)
  show ?thesis
    unfolding extract_content_def
    by (simp only: str_index_START_framed e option.case slice_framed strip_line [OF assms])
qed

lemma str_index_skip:
  assumes "\<forall>i < length p. \<not> prefix sub (drop i (p @ t))"
  shows "str_index sub (p @ t) = map_option (\<lambda>n. length p + n) (str_index sub t)"
  using assms
proof (induction p)
  case Nil
  show ?case by (simp add: option.map_ident)
next
  case (Cons c p)
  from Cons.prems have "\<not> prefix sub (drop 0 ((c # p) @ t))"
    by blast
  then have first: "\<not> prefix sub (c # p @ t)" by simp
  have "\<forall>i < length p. \<not> prefix sub (drop i (p @ t))"
  proof (intro allI impI)
    fix i assume "i < length p"
    then have "Suc i < length (c # p)" by simp
    with Cons.prems have "\<not> prefix sub (drop (Suc i) ((c # p) @ t))" by blast
    then show "\<not> prefix sub (drop i (p @ t))" by simp
  qed
  then have "str_index sub (p @ t) = map_option (\<lambda>n. length p + n) (str_index sub t)"
    by (rule Cons.IH)
  with first show ?case
    by (simp add: option.map_comp comp_def)
qed

lemma no_match_before:
  assumes "\<not> sublist sub pre" and "c \<notin> set (tl sub)" and "i < length pre"
  shows "\<not> prefix sub (drop i (pre @ c # t))"
proof
  assume "prefix sub (drop i (pre @ c # t))"
  then have "prefix sub (drop i pre @ c # t)"
    using assms(3) by simp
  then have "prefix sub (drop i pre) \<or>
      (\<exists>us. sub = drop i pre @ us \<and> prefix us (c # t))"
    by (simp add: prefix_append)
  then show False
  proof
    assume "prefix sub (drop i pre)"
    then obtain zs where "drop i pre = sub @ zs"
      by (auto simp add: prefix_def)
    then have "pre = take i pre @ sub @ zs"
      by (metis append_take_drop_id)
    then have "sublist sub pre"
      by (metis sublist_appendI)
    with assms(1) show False by contradiction
  next
    assume "\<exists>us. sub = drop i pre @ us \<and> prefix us (c # t)"
    then obtain us where us: "sub = drop i pre @ us" "prefix us (c # t)"
      by blast
    obtain x xs where u: "drop i pre = x # xs"
      using assms(3) by (cases "drop i pre") auto
    show False
    proof (cases us)
      case Nil
      with us(1) have "pre = take i pre @ sub @ []"
        by simp
      then have "sublist sub pre"
        by (metis sublist_appendI)
      with assms(1) show False by contradiction
    next
      case (Cons y ys)
      with us(2) have "y = c" by simp
      with us(1) u Cons have "c \<in> set (tl sub)" by simp
      with assms(2) show False by contradiction
    qed
  qed
qed

lemma str_index_START_after:
  assumes "\<not> sublist ''BASE64_START'' pre"
  shows "str_index ''BASE64_START'' (pre @ ''BASE64_START\<newline>'' @ rest) = Some (length pre)"
proof -
  have "\<forall>i < length pre.
      \<not> prefix ''BASE64_START'' (drop i (pre @ CHR ''B'' # ''ASE64_START\<newline>'' @ rest))"
  proof (intro allI impI)
    fix i assume "i < length pre"
    show "\<not> prefix ''BASE64_START'' (drop i (pre @ CHR ''B'' # ''ASE64_START\<newline>'' @ rest))"
      by (rule no_match_before [OF assms _ \<open>i < length pre\<close>]) simp
  qed
  then have "\<forall>i < length pre.
      \<not> prefix ''BASE64_START'' (drop i (pre @ ''BASE64_START\<newline>'' @ rest))"
    by simp
  then have "str_index ''BASE64_START'' (pre @ ''BASE64_START\<newline>'' @ rest) =
      map_option (\<lambda>n. length pre + n)
        (str_index ''BASE64_START'' (''BASE64_START\<newline>'' @ rest))"
    by (rule str_index_skip)
  then show ?thesis
    by (simp only: str_index_START_framed option.map add_0_right)
qed

lemma str_index_END_after:
  assumes "\<not> sublist ''BASE64_END'' pre" and "CHR ''_'' \<notin> set enc"
  shows "str_index ''BASE64_END''
           (pre @ ''BASE64_START\<newline>'' @ enc @ ''\<newline>'' @ ''BASE64_END'' @ post) =
         Some (length pre + (14 + length enc))"
proof -
  have "\<forall>i < length pre.
      \<not> prefix ''BASE64_END''
          (drop i (pre @ CHR ''B'' # ''ASE64_START\<newline>'' @ enc @ ''\<newline>'' @ ''BASE64_END'' @ post))"
  proof (intro allI impI)
    fix i assume "i < length pre"
    show "\<not> prefix ''BASE64_END''
          (drop i (pre @ CHR ''B'' # ''ASE64_START\<newline>'' @ enc @ ''\<newline>'' @ ''BASE64_END'' @ post))"
      by (rule no_match_before [OF assms(1) _ \<open>i < length pre\<close>]) simp
  qed
  then have "\<forall>i < length pre.
      \<not> prefix ''BASE64_END''
          (drop i (pre @ ''BASE64_START\<newline>'' @ enc @ ''\<newline>'' @ ''BASE64_END'' @ post))"
    by simp
  then have "str_index ''BASE64_END''
           (pre @ ''BASE64_START\<newline>'' @ enc @ ''\<newline>'' @ ''BASE64_END'' @ post) =
      map_option (\<lambda>n. length pre + n)
        (str_index ''BASE64_END''
           (''BASE64_START\<newline>'' @ enc @ ''\<newline>'' @ ''BASE64_END'' @ post))"
    by (rule str_index_skip)
  then show ?thesis
    by (simp only: str_index_END_framed [OF assms(2)] option.map)
qed

lemma slice_after:
  "slice (pre @ ''BASE64_START\<newline>'' @ enc @ ''\<newline>'' @ ''BASE64_END'' @ post)
     (length pre + length ''BASE64_START'') (length pre + (14 + length enc)) =
   CHR 0x0A # enc @ [CHR 0x0A]"
proof -
  have "take (Suc (Suc (length enc))) (CHR 0x0A # enc @ CHR 0x0A # ''BASE64_END'' @ post) =
        CHR 0x0A # enc @ [CHR 0x0A]"
    by simp
  then show ?thesis
    by (simp add: slice_def)
qed

lemma extract_content_after:
  assumes "set enc \<subseteq> insert (CHR ''='') (set table_b2a_base64)"
    and "\<not> sublist ''BASE64_START'' pre" and "\<not> sublist ''BASE64_END'' pre"
  shows "extract_content
           (pre @ ''BASE64_START\<newline>'' @ enc @ ''\<newline>'' @ ''BASE64_END'' @ post) =
         b64decode enc"
proof -
  have "CHR ''_'' \<notin> set enc"
    using assms(1) base64_char_facts(2) by blast
  then have e: "str_index ''BASE64_END''
      (pre @ ''BASE64_START\<newline>'' @ enc @ ''\<newline>'' @ ''BASE64_END'' @ post) =
      Some (length pre + (14 + length enc))"
    by (rule str_index_END_after [OF assms(3)])
  have s: "str_index ''BASE64_START''
      (pre @ ''BASE64_START\<newline>'' @ enc @ ''\<newline>'' @ ''BASE64_END'' @ post) =
      Some (length pre)"
    by (rule str_index_START_after [OF assms(2)])
  show ?thesis
    unfolding extract_content_def
    by (simp only: s e option.case slice_after strip_line [OF assms(1)])
qed

section \<open>Properties of the download helper\<close>

lemma scan_outputs_skip:
  assumes "\<forall>i \<in> set skipped. passed_over i"
  shows "scan_outputs os filename local_path (skipped @ items) =
         scan_outputs os filename local_path items"
  using assms by (induction skipped) (auto simp add: passed_over_def)

lemma download_on_exception:
  assumes "execute (download_code filename) ''python'' False = Inl e"
  shows "download_file_from_sandbox os execute filename local_path =
     (Inr False, [Print (''   '' @ warning_mark @ ''  Download error: '' @ message e)])"
  using assms
  by (simp add: download_file_from_sandbox_def download_file_from_sandbox_try_def)

lemma download_on_result:
  assumes "execute (download_code filename) ''python'' False = Inr r"
  shows "download_file_from_sandbox os execute filename local_path =
     (case scan_outputs os filename local_path (outputs r) of
        (Inl e, effects) \<Rightarrow>
          (Inr False,
           effects @ [Print (''   '' @ warning_mark @ ''  Download error: '' @ message e)])
      | (Inr returned, effects) \<Rightarrow> (Inr returned, effects))"
  using assms
  by (simp add: download_file_from_sandbox_def download_file_from_sandbox_try_def)

lemma scan_outputs_framed:
  assumes "type output_item = ''stdout''"
    and "data output_item =
           pre @ ''BASE64_START\<newline>'' @ payload @ ''\<newline>'' @ ''BASE64_END'' @ post"
    and "\<not> sublist ''BASE64_START'' pre" and "\<not> sublist ''BASE64_END'' pre"
    and "\<not> sublist ''ERROR: File not found'' (data output_item)"
    and "base64_text payload"
  shows "scan_outputs os filename local_path (output_item # rest) =
     (case b64decode payload of
        Inl e \<Rightarrow> (Inl e, [])
      | Inr decoded_content \<Rightarrow>
          (case save_content os local_path decoded_content of
             (Some e, effects) \<Rightarrow> (Inl e, effects)
           | (None, effects) \<Rightarrow> (Inr True, effects)))"
proof -
  have decoded: "extract_content (data output_item) = b64decode payload"
    unfolding assms(2)
    by (rule extract_content_after)
       (use assms(3,4,6) in \<open>simp_all add: base64_text_def\<close>)
  have "sublist ''BASE64_START''
      (pre @ ''BASE64_START'' @ ''\<newline>'' @ payload @ ''\<newline>'' @ ''BASE64_END'' @ post)"
    by (rule sublist_appendI)
  then have has_start: "sublist ''BASE64_START'' (data output_item)"
    by (simp add: assms(2))
  have "sublist ''BASE64_END''
      ((pre @ ''BASE64_START\<newline>'' @ payload @ ''\<newline>'') @ ''BASE64_END'' @ post)"
    by (rule sublist_appendI)
  then have has_end: "sublist ''BASE64_END'' (data output_item)"
    by (simp add: assms(2))
  show ?thesis
    using assms(1,5) has_start has_end by (simp add: decoded)
qed

lemma save_content_ok:
  assumes "os (Makedirs (if dirname local_path \<noteq> [] then dirname local_path else ''.'')) = None"
    and "os (Write local_path content) = None"
  shows "save_content os local_path content =
     (None, [Makedirs (if dirname local_path \<noteq> [] then dirname local_path else ''.''),
             Write local_path content])"
  using assms by (simp add: save_content_def Let_def)

lemma download_framed:
  assumes "execute (download_code filename) ''python'' False = Inr r"
    and "outputs r = skipped @ output_item # rest"
    and "\<forall>i \<in> set skipped. passed_over i"
    and "type output_item = ''stdout''"
    and "data output_item =
           pre @ ''BASE64_START\<newline>'' @ payload @ ''\<newline>'' @ ''BASE64_END'' @ post"
    and "\<not> sublist ''BASE64_START'' pre" and "\<not> sublist ''BASE64_END'' pre"
    and "\<not> sublist ''ERROR: File not found'' (data output_item)"
    and "base64_text payload"
    and "b64decode payload = Inr content"
    and "os (Makedirs (if dirname local_path \<noteq> [] then dirname local_path else ''.'')) = None"
    and "os (Write local_path content) = None"
  shows "download_file_from_sandbox os execute filename local_path =
     (Inr True,
      [Makedirs (if dirname local_path \<noteq> [] then dirname local_path else ''.''),
       Write local_path content])"
proof -
  have "scan_outputs os filename local_path (outputs r) =
        scan_outputs os filename local_path (output_item # rest)"
    unfolding assms(2) by (rule scan_outputs_skip) (rule assms(3))
  also have "\<dots> =
     (Inr True,
      [Makedirs (if dirname local_path \<noteq> [] then dirname local_path else ''.''),
       Write local_path content])"
    by (simp only: scan_outputs_framed [OF assms(4,5,6,7,8,9)] assms(10) sum.case
          save_content_ok [OF assms(11,12)] prod.case option.case)
  finally show ?thesis
    using assms(1) by (simp add: download_on_result)
qed

lemma download_error_line:
  assumes "execute (download_code filename) ''python'' False = Inr r"
    and "outputs r = skipped @ output_item # rest"
    and "\<forall>i \<in> set skipped. passed_over i"
    and "type output_item = ''stdout''"
    and "sublist ''ERROR: File not found'' (data output_item)"
  shows "download_file_from_sandbox os execute filename local_path =
     (Inr False,
      [Print (''   '' @ warning_mark @ ''  File not found in sandbox: '' @ filename)])"
proof -
  have "scan_outputs os filename local_path (outputs r) =
        scan_outputs os filename local_path (output_item # rest)"
    unfolding assms(2) by (rule scan_outputs_skip) (rule assms(3))
  also have "\<dots> =
     (Inr False,
      [Print (''   '' @ warning_mark @ ''  File not found in sandbox: '' @ filename)])"
    using assms(4,5) by simp
  finally show ?thesis
    using assms(1) by (simp add: download_on_result)
qed

lemma download_decode_error:
  assumes "execute (download_code filename) ''python'' False = Inr r"
    and "outputs r = skipped @ output_item # rest"
    and "\<forall>i \<in> set skipped. passed_over i"
    and "type output_item = ''stdout''"
    and "\<not> sublist ''ERROR: File not found'' (data output_item)"
    and "sublist ''BASE64_START'' (data output_item)"
    and "sublist ''BASE64_END'' (data output_item)"
    and "extract_content (data output_item) = Inl e"
  shows "download_file_from_sandbox os execute filename local_path =
     (Inr False, [Print (''   '' @ warning_mark @ ''  Download error: '' @ message e)])"
proof -
  have "scan_outputs os filename local_path (outputs r) =
        scan_outputs os filename local_path (output_item # rest)"
    unfolding assms(2) by (rule scan_outputs_skip) (rule assms(3))
  also have "\<dots> = (Inl e, [])"
    using assms(4-8) by simp
  finally show ?thesis
    using assms(1) by (simp add: download_on_result)
qed

lemma scan_outputs_no_sentinels:
  assumes "\<forall>i \<in> set items. type i = ''stdout'' \<longrightarrow>
             \<not> (sublist ''BASE64_START'' (data i) \<and> sublist ''BASE64_END'' (data i))"
  shows "fst (scan_outputs os filename local_path items) = Inr False \<and>
         (\<forall>x \<in> set (snd (scan_outputs os filename local_path items)). \<exists>line. x = Print line)"
  using assms by (induction items) auto

lemma download_returns:
  "\<exists>returned. fst (download_file_from_sandbox os execute filename local_path) = Inr returned"
proof (cases "download_file_from_sandbox_try os execute filename local_path")
  case (Pair outcome effects)
  then show ?thesis
    by (cases outcome) (auto simp add: download_file_from_sandbox_def)
qed

lemma b64decode_chart: "b64decode ''QUJDCg=='' = Inr [0x41, 0x42, 0x43, 0x0A]"
  by code_simp

lemma base64_text_chart: "base64_text ''QUJDCg==''"
  by (simp add: base64_text_def table_b2a_base64_def)

subsection \<open>Round trip through the sentinel framing\<close>

text \<open>
  C7. For every byte sequence \<open>content\<close>, the empty one and those with newline bytes
  included: when \<open>content\<close> is Base64-encoded and the encoding is put on a line of its own
  between the sentinel lines \<open>BASE64_START\<close> and \<open>BASE64_END\<close>, whatever follows the
  second sentinel, the extraction of the helper (the text strictly between the first
  occurrences of the two sentinels, trimmed, Base64-decoded) gives back \<open>content\<close>. This
  holds in particular for what the program sent to the sandbox prints.
\<close>

theorem extract_content_round_trip:
  "extract_content
     (''BASE64_START\<newline>'' @ b64encode content @ ''\<newline>'' @ ''BASE64_END'' @ post) = Inr content \<and>
   extract_content (sandbox_stdout (Some content)) = Inr content"
proof -
  have "extract_content
     (''BASE64_START\<newline>'' @ b64encode content @ ''\<newline>'' @ ''BASE64_END'' @ rest) = Inr content"
    for rest
    by (simp only: extract_content_framed [OF set_b64encode] b64decode_b64encode)
  from this [of post] this [of "''\<newline>''"] show ?thesis
    by (simp add: sandbox_stdout_def)
qed

subsection \<open>A file found, a file missing\<close>

text \<open>
  C6, as amended. The helper looks at the stdout items in order, and the first one that
  holds the error line or both sentinels decides; let it be \<open>output_item\<close>, after items
  that are all passed over. When its text is some leading text without either sentinel,
  then \<open>BASE64_START\<close>, a newline, a payload of Base64 characters that decodes to
  \<open>content\<close>, a newline and \<open>BASE64_END\<close>, then any text, the whole without the error line,
  and the local file system accepts the two operations, the helper makes the directory of
  the destination path, writes exactly \<open>content\<close> to the destination path and returns
  \<open>True\<close>. When its text contains \<open>ERROR: File not found\<close>, the helper returns \<open>False\<close>
  and its only effect is a printed warning: no file is written.
\<close>

theorem download_found_or_missing:
  assumes "execute (download_code filename) ''python'' False = Inr r"
    and "outputs r = skipped @ output_item # rest"
    and "\<forall>i \<in> set skipped. passed_over i"
    and "type output_item = ''stdout''"
  shows "(data output_item =
            pre @ ''BASE64_START\<newline>'' @ payload @ ''\<newline>'' @ ''BASE64_END'' @ post \<and>
          \<not> sublist ''BASE64_START'' pre \<and> \<not> sublist ''BASE64_END'' pre \<and>
          \<not> sublist ''ERROR: File not found'' (data output_item) \<and>
          base64_text payload \<and> b64decode payload = Inr content \<and>
          os (Makedirs (if dirname local_path \<noteq> [] then dirname local_path else ''.'')) = None \<and>
          os (Write local_path content) = None \<longrightarrow>
          download_file_from_sandbox os execute filename local_path =
            (Inr True,
             [Makedirs (if dirname local_path \<noteq> [] then dirname local_path else ''.''),
              Write local_path content])) \<and>
         (sublist ''ERROR: File not found'' (data output_item) \<longrightarrow>
          download_file_from_sandbox os execute filename local_path =
            (Inr False,
             [Print (''   '' @ warning_mark @ ''  File not found in sandbox: '' @ filename)]))"
proof (intro conjI impI)
  assume "data output_item =
            pre @ ''BASE64_START\<newline>'' @ payload @ ''\<newline>'' @ ''BASE64_END'' @ post \<and>
          \<not> sublist ''BASE64_START'' pre \<and> \<not> sublist ''BASE64_END'' pre \<and>
          \<not> sublist ''ERROR: File not found'' (data output_item) \<and>
          base64_text payload \<and> b64decode payload = Inr content \<and>
          os (Makedirs (if dirname local_path \<noteq> [] then dirname local_path else ''.'')) = None \<and>
          os (Write local_path content) = None"
  then show "download_file_from_sandbox os execute filename local_path =
            (Inr True,
             [Makedirs (if dirname local_path \<noteq> [] then dirname local_path else ''.''),
              Write local_path content])"
    using assms by (intro download_framed [where pre = pre and payload = payload and post = post]) blast+
next
  assume "sublist ''ERROR: File not found'' (data output_item)"
  with assms show "download_file_from_sandbox os execute filename local_path =
            (Inr False,
             [Print (''   '' @ warning_mark @ ''  File not found in sandbox: '' @ filename)])"
    by (rule download_error_line)
qed

text \<open>
  C6, witness: the sandbox holds a file with the four bytes \<open>ABC\<close> and a newline, then no
  file at all. In both runs an unrelated stdout item comes first; in the first run a
  stderr item with both sentinels comes before it, and the deciding item has a line
  before the first sentinel and a line with spaces after the second.
\<close>

theorem download_found_or_missing_witness:
  "download_file_from_sandbox os_ok
     (fixed_execute (Inr \<lparr>status = ''succeeded'',
        outputs = [\<lparr>type = ''stderr'', data = ''BASE64_START BASE64_END''\<rparr>,
                   \<lparr>type = ''stdout'', data = ''Loading file\<newline>''\<rparr>,
                   \<lparr>type = ''stdout'',
                    data = ''saved 4 bytes\<newline>BASE64_START\<newline>QUJDCg==\<newline>BASE64_END\<newline>done in 3 ms\<newline>''\<rparr>],
        execution_time_ms = None\<rparr>))
     ''/tmp/chart.png'' ''output/chart.png'' =
     (Inr True, [Makedirs ''output'', Write ''output/chart.png'' [0x41, 0x42, 0x43, 0x0A]]) \<and>
   download_file_from_sandbox os_ok
     (fixed_execute (Inr \<lparr>status = ''succeeded'',
        outputs = [\<lparr>type = ''stdout'', data = ''Loading file\<newline>''\<rparr>,
                   \<lparr>type = ''stdout'', data = ''ERROR: File not found\<newline>''\<rparr>],
        execution_time_ms = None\<rparr>))
     ''/tmp/chart.png'' ''output/chart.png'' =
     (Inr False,
      [Print (''   '' @ warning_mark @ ''  File not found in sandbox: /tmp/chart.png'')])"
proof
  have "passed_over \<lparr>type = ''stdout'', data = ''Loading file\<newline>''\<rparr>"
    and "sublist ''ERROR: File not found'' ''ERROR: File not found\<newline>''"
    by code_simp+
  then show "download_file_from_sandbox os_ok
     (fixed_execute (Inr \<lparr>status = ''succeeded'',
        outputs = [\<lparr>type = ''stdout'', data = ''Loading file\<newline>''\<rparr>,
                   \<lparr>type = ''stdout'', data = ''ERROR: File not found\<newline>''\<rparr>],
        execution_time_ms = None\<rparr>))
     ''/tmp/chart.png'' ''output/chart.png'' =
     (Inr False,
      [Print (''   '' @ warning_mark @ ''  File not found in sandbox: /tmp/chart.png'')])"
    using download_found_or_missing
      [where os = os_ok
         and execute = "fixed_execute (Inr \<lparr>status = ''succeeded'',
            outputs = [\<lparr>type = ''stdout'', data = ''Loading file\<newline>''\<rparr>,
                       \<lparr>type = ''stdout'', data = ''ERROR: File not found\<newline>''\<rparr>],
            execution_time_ms = None\<rparr>)"
         and filename = "''/tmp/chart.png''" and local_path = "''output/chart.png''"
         and r = "\<lparr>status = ''succeeded'',
            outputs = [\<lparr>type = ''stdout'', data = ''Loading file\<newline>''\<rparr>,
                       \<lparr>type = ''stdout'', data = ''ERROR: File not found\<newline>''\<rparr>],
            execution_time_ms = None\<rparr>"
         and skipped = "[\<lparr>type = ''stdout'', data = ''Loading file\<newline>''\<rparr>]"
         and output_item = "\<lparr>type = ''stdout'', data = ''ERROR: File not found\<newline>''\<rparr>"
         and rest = "[]"]
    by (simp add: fixed_execute_def)
next
  have "passed_over \<lparr>type = ''stderr'', data = ''BASE64_START BASE64_END''\<rparr>"
    and "passed_over \<lparr>type = ''stdout'', data = ''Loading file\<newline>''\<rparr>"
    and "\<not> sublist ''BASE64_START'' ''saved 4 bytes\<newline>''"
    and "\<not> sublist ''BASE64_END'' ''saved 4 bytes\<newline>''"
    and "\<not> sublist ''ERROR: File not found''
           ''saved 4 bytes\<newline>BASE64_START\<newline>QUJDCg==\<newline>BASE64_END\<newline>done in 3 ms\<newline>''"
    and "dirname ''output/chart.png'' = ''output''"
    by code_simp+
  then show "download_file_from_sandbox os_ok
     (fixed_execute (Inr \<lparr>status = ''succeeded'',
        outputs = [\<lparr>type = ''stderr'', data = ''BASE64_START BASE64_END''\<rparr>,
                   \<lparr>type = ''stdout'', data = ''Loading file\<newline>''\<rparr>,
                   \<lparr>type = ''stdout'',
                    data = ''saved 4 bytes\<newline>BASE64_START\<newline>QUJDCg==\<newline>BASE64_END\<newline>done in 3 ms\<newline>''\<rparr>],
        execution_time_ms = None\<rparr>))
     ''/tmp/chart.png'' ''output/chart.png'' =
     (Inr True, [Makedirs ''output'', Write ''output/chart.png'' [0x41, 0x42, 0x43, 0x0A]])"
    using download_found_or_missing
      [where os = os_ok
         and execute = "fixed_execute (Inr \<lparr>status = ''succeeded'',
            outputs = [\<lparr>type = ''stderr'', data = ''BASE64_START BASE64_END''\<rparr>,
                       \<lparr>type = ''stdout'', data = ''Loading file\<newline>''\<rparr>,
                       \<lparr>type = ''stdout'',
                        data = ''saved 4 bytes\<newline>BASE64_START\<newline>QUJDCg==\<newline>BASE64_END\<newline>done in 3 ms\<newline>''\<rparr>],
            execution_time_ms = None\<rparr>)"
         and filename = "''/tmp/chart.png''" and local_path = "''output/chart.png''"
         and r = "\<lparr>status = ''succeeded'',
            outputs = [\<lparr>type = ''stderr'', data = ''BASE64_START BASE64_END''\<rparr>,
                       \<lparr>type = ''stdout'', data = ''Loading file\<newline>''\<rparr>,
                       \<lparr>type = ''stdout'',
                        data = ''saved 4 bytes\<newline>BASE64_START\<newline>QUJDCg==\<newline>BASE64_END\<newline>done in 3 ms\<newline>''\<rparr>],
            execution_time_ms = None\<rparr>"
         and skipped = "[\<lparr>type = ''stderr'', data = ''BASE64_START BASE64_END''\<rparr>,
                         \<lparr>type = ''stdout'', data = ''Loading file\<newline>''\<rparr>]"
         and output_item = "\<lparr>type = ''stdout'',
                        data = ''saved 4 bytes\<newline>BASE64_START\<newline>QUJDCg==\<newline>BASE64_END\<newline>done in 3 ms\<newline>''\<rparr>"
         and rest = "[]" and pre = "''saved 4 bytes\<newline>''" and payload = "''QUJDCg==''"
         and post = "''\<newline>done in 3 ms\<newline>''" and content = "[0x41, 0x42, 0x43, 0x0A]"]
      b64decode_chart base64_text_chart
    by (simp add: fixed_execute_def os_ok_def)
qed

text \<open>
  C6, counterexample to "stdout that contains the framed payload is decoded, written and
  answered with \<open>True\<close>". In the first run the stdout item contains the framed payload of
  the bytes \<open>ABC\<close> and a newline, after a line that names \<open>BASE64_END\<close>: the slice between
  the first occurrences of the sentinels is empty, and an empty file is written. In the
  second run the three printed lines arrive as three stdout items: no item holds both
  sentinels, nothing is written and \<open>False\<close> is returned.
\<close>

theorem download_earlier_sentinel_counterexample:
  "download_file_from_sandbox os_ok
     (fixed_execute (Inr \<lparr>status = ''succeeded'',
        outputs = [\<lparr>type = ''stdout'',
          data = ''waiting for BASE64_END marker\<newline>BASE64_START\<newline>QUJDCg==\<newline>BASE64_END\<newline>''\<rparr>],
        execution_time_ms = None\<rparr>))
     ''/tmp/chart.png'' ''output/chart.png'' =
     (Inr True, [Makedirs ''output'', Write ''output/chart.png'' []]) \<and>
   sublist ''BASE64_START\<newline>QUJDCg==\<newline>BASE64_END''
     ''waiting for BASE64_END marker\<newline>BASE64_START\<newline>QUJDCg==\<newline>BASE64_END\<newline>'' \<and>
   b64decode ''QUJDCg=='' = Inr [0x41, 0x42, 0x43, 0x0A] \<and>
   download_file_from_sandbox os_ok
     (fixed_execute (Inr \<lparr>status = ''succeeded'',
        outputs = [\<lparr>type = ''stdout'', data = ''BASE64_START\<newline>''\<rparr>,
                   \<lparr>type = ''stdout'', data = ''QUJDCg==\<newline>''\<rparr>,
                   \<lparr>type = ''stdout'', data = ''BASE64_END\<newline>''\<rparr>],
        execution_time_ms = None\<rparr>))
     ''/tmp/chart.png'' ''output/chart.png'' = (Inr False, [])"
  by code_simp

subsection \<open>A boolean, never an exception\<close>

text \<open>
  C8, as amended. For every file name, destination path, behaviour of the remote call and
  behaviour of the local file system, \<open>download_file_from_sandbox\<close> returns a boolean
  (\<open>Inr\<close>) and never raises (\<open>Inl\<close>). It returns \<open>False\<close> when the remote call raises; when
  no stdout item holds both sentinels (then nothing but warnings is printed); when the
  deciding stdout item holds the error line of a missing file; and when the deciding
  stdout item holds both sentinels and the extraction raises, as \<open>b64decode\<close> does on an
  incomplete group of four, on wrong padding or on a character that is not ASCII. A
  payload is not rejected for holding characters outside the Base64 alphabet: \<open>b64decode\<close>
  drops them.
\<close>

theorem download_never_raises:
  "(\<exists>returned. fst (download_file_from_sandbox os execute filename local_path) = Inr returned) \<and>
   (execute (download_code filename) ''python'' False = Inl e \<longrightarrow>
      download_file_from_sandbox os execute filename local_path =
        (Inr False, [Print (''   '' @ warning_mark @ ''  Download error: '' @ message e)])) \<and>
   (execute (download_code filename) ''python'' False = Inr r \<longrightarrow>
      ((\<forall>i \<in> set (outputs r). type i = ''stdout'' \<longrightarrow>
           \<not> (sublist ''BASE64_START'' (data i) \<and> sublist ''BASE64_END'' (data i))) \<longrightarrow>
         fst (download_file_from_sandbox os execute filename local_path) = Inr False \<and>
         (\<forall>x \<in> set (snd (download_file_from_sandbox os execute filename local_path)).
            \<exists>line. x = Print line)) \<and>
      (outputs r = skipped @ output_item # rest \<and>
       (\<forall>i \<in> set skipped. passed_over i) \<and> type output_item = ''stdout'' \<longrightarrow>
         (sublist ''ERROR: File not found'' (data output_item) \<longrightarrow>
            download_file_from_sandbox os execute filename local_path =
              (Inr False,
               [Print (''   '' @ warning_mark @ ''  File not found in sandbox: '' @ filename)])) \<and>
         (\<not> sublist ''ERROR: File not found'' (data output_item) \<and>
          sublist ''BASE64_START'' (data output_item) \<and>
          sublist ''BASE64_END'' (data output_item) \<and>
          extract_content (data output_item) = Inl e' \<longrightarrow>
            download_file_from_sandbox os execute filename local_path =
              (Inr False,
               [Print (''   '' @ warning_mark @ ''  Download error: '' @ message e')]))))"
proof (intro conjI impI)
  show "\<exists>returned. fst (download_file_from_sandbox os execute filename local_path) = Inr returned"
    by (rule download_returns)
next
  assume "execute (download_code filename) ''python'' False = Inl e"
  then show "download_file_from_sandbox os execute filename local_path =
        (Inr False, [Print (''   '' @ warning_mark @ ''  Download error: '' @ message e)])"
    by (rule download_on_exception)
next
  assume exec: "execute (download_code filename) ''python'' False = Inr r"
    and none: "\<forall>i \<in> set (outputs r). type i = ''stdout'' \<longrightarrow>
           \<not> (sublist ''BASE64_START'' (data i) \<and> sublist ''BASE64_END'' (data i))"
  obtain outcome effects where
    scan: "scan_outputs os filename local_path (outputs r) = (outcome, effects)"
    by (cases "scan_outputs os filename local_path (outputs r)")
  from scan_outputs_no_sentinels [OF none, of os filename local_path]
  have "outcome = Inr False" and "\<forall>x \<in> set effects. \<exists>line. x = Print line"
    by (simp_all add: scan)
  then have "download_file_from_sandbox os execute filename local_path = (Inr False, effects)"
    and "\<forall>x \<in> set effects. \<exists>line. x = Print line"
    using exec by (simp_all add: download_on_result scan)
  then show "fst (download_file_from_sandbox os execute filename local_path) = Inr False"
    and "\<forall>x \<in> set (snd (download_file_from_sandbox os execute filename local_path)).
            \<exists>line. x = Print line"
    by simp_all
next
  assume "execute (download_code filename) ''python'' False = Inr r"
    and "outputs r = skipped @ output_item # rest \<and>
       (\<forall>i \<in> set skipped. passed_over i) \<and> type output_item = ''stdout''"
    and "sublist ''ERROR: File not found'' (data output_item)"
  then show "download_file_from_sandbox os execute filename local_path =
              (Inr False,
               [Print (''   '' @ warning_mark @ ''  File not found in sandbox: '' @ filename)])"
    by (intro download_error_line) blast+
next
  assume "execute (download_code filename) ''python'' False = Inr r"
    and "outputs r = skipped @ output_item # rest \<and>
       (\<forall>i \<in> set skipped. passed_over i) \<and> type output_item = ''stdout''"
    and "\<not> sublist ''ERROR: File not found'' (data output_item) \<and>
          sublist ''BASE64_START'' (data output_item) \<and>
          sublist ''BASE64_END'' (data output_item) \<and>
          extract_content (data output_item) = Inl e'"
  then show "download_file_from_sandbox os execute filename local_path =
              (Inr False,
               [Print (''   '' @ warning_mark @ ''  Download error: '' @ message e')])"
    by (intro download_decode_error) blast+
qed

text \<open>
  C8, witness: a remote call that raises, a payload \<open>QQ\<close> with wrong padding after an
  unrelated stdout item, and a run whose two sentinels arrive in two different stdout
  items.
\<close>

theorem download_never_raises_witness:
  "download_file_from_sandbox os_ok
     (fixed_execute (Inl (Exception ''connection timed out'')))
     ''/tmp/chart.png'' ''output/chart.png'' =
     (Inr False, [Print (''   '' @ warning_mark @ ''  Download error: connection timed out'')]) \<and>
   download_file_from_sandbox os_ok
     (fixed_execute (Inr \<lparr>status = ''succeeded'',
        outputs = [\<lparr>type = ''stdout'', data = ''Loading file\<newline>''\<rparr>,
                   \<lparr>type = ''stdout'', data = ''BASE64_START\<newline>QQ\<newline>BASE64_END''\<rparr>],
        execution_time_ms = None\<rparr>))
     ''/tmp/chart.png'' ''output/chart.png'' =
     (Inr False, [Print (''   '' @ warning_mark @ ''  Download error: Incorrect padding'')]) \<and>
   fst (download_file_from_sandbox os_ok
     (fixed_execute (Inr \<lparr>status = ''succeeded'',
        outputs = [\<lparr>type = ''stdout'', data = ''BASE64_START''\<rparr>, \<lparr>type = ''stdout'', data = ''BASE64_END''\<rparr>],
        execution_time_ms = None\<rparr>))
     ''/tmp/chart.png'' ''output/chart.png'') = Inr False"
proof (intro conjI)
  show "download_file_from_sandbox os_ok
     (fixed_execute (Inl (Exception ''connection timed out'')))
     ''/tmp/chart.png'' ''output/chart.png'' =
     (Inr False, [Print (''   '' @ warning_mark @ ''  Download error: connection timed out'')])"
    using download_never_raises
      [where os = os_ok and execute = "fixed_execute (Inl (Exception ''connection timed out''))"
         and filename = "''/tmp/chart.png''" and local_path = "''output/chart.png''"
         and e = "Exception ''connection timed out''"]
    by (simp add: fixed_execute_def)
next
  have "\<not> sublist ''ERROR: File not found'' ''BASE64_START\<newline>QQ\<newline>BASE64_END''"
    and "sublist ''BASE64_START'' ''BASE64_START\<newline>QQ\<newline>BASE64_END''"
    and "sublist ''BASE64_END'' ''BASE64_START\<newline>QQ\<newline>BASE64_END''"
    and "extract_content ''BASE64_START\<newline>QQ\<newline>BASE64_END'' =
           Inl (Exception ''Incorrect padding'')"
    and "passed_over \<lparr>type = ''stdout'', data = ''Loading file\<newline>''\<rparr>"
    by code_simp+
  then show "download_file_from_sandbox os_ok
     (fixed_execute (Inr \<lparr>status = ''succeeded'',
        outputs = [\<lparr>type = ''stdout'', data = ''Loading file\<newline>''\<rparr>,
                   \<lparr>type = ''stdout'', data = ''BASE64_START\<newline>QQ\<newline>BASE64_END''\<rparr>],
        execution_time_ms = None\<rparr>))
     ''/tmp/chart.png'' ''output/chart.png'' =
     (Inr False, [Print (''   '' @ warning_mark @ ''  Download error: Incorrect padding'')])"
    using download_never_raises
      [where os = os_ok
         and execute = "fixed_execute (Inr \<lparr>status = ''succeeded'',
            outputs = [\<lparr>type = ''stdout'', data = ''Loading file\<newline>''\<rparr>,
                   \<lparr>type = ''stdout'', data = ''BASE64_START\<newline>QQ\<newline>BASE64_END''\<rparr>],
            execution_time_ms = None\<rparr>)"
         and filename = "''/tmp/chart.png''" and local_path = "''output/chart.png''"
         and r = "\<lparr>status = ''succeeded'',
            outputs = [\<lparr>type = ''stdout'', data = ''Loading file\<newline>''\<rparr>,
                   \<lparr>type = ''stdout'', data = ''BASE64_START\<newline>QQ\<newline>BASE64_END''\<rparr>],
            execution_time_ms = None\<rparr>"
         and skipped = "[\<lparr>type = ''stdout'', data = ''Loading file\<newline>''\<rparr>]"
         and output_item = "\<lparr>type = ''stdout'', data = ''BASE64_START\<newline>QQ\<newline>BASE64_END''\<rparr>"
         and rest = "[]" and e' = "Exception ''Incorrect padding''"]
    by (simp add: fixed_execute_def)
next
  have "\<not> sublist ''BASE64_END'' ''BASE64_START''"
    and "\<not> sublist ''BASE64_START'' ''BASE64_END''"
    by code_simp+
  then show "fst (download_file_from_sandbox os_ok
     (fixed_execute (Inr \<lparr>status = ''succeeded'',
        outputs = [\<lparr>type = ''stdout'', data = ''BASE64_START''\<rparr>, \<lparr>type = ''stdout'', data = ''BASE64_END''\<rparr>],
        execution_time_ms = None\<rparr>))
     ''/tmp/chart.png'' ''output/chart.png'') = Inr False"
    using download_never_raises
      [where os = os_ok
         and execute = "fixed_execute (Inr \<lparr>status = ''succeeded'',
            outputs = [\<lparr>type = ''stdout'', data = ''BASE64_START''\<rparr>, \<lparr>type = ''stdout'', data = ''BASE64_END''\<rparr>],
            execution_time_ms = None\<rparr>)"
         and filename = "''/tmp/chart.png''" and local_path = "''output/chart.png''"
         and r = "\<lparr>status = ''succeeded'',
            outputs = [\<lparr>type = ''stdout'', data = ''BASE64_START''\<rparr>, \<lparr>type = ''stdout'', data = ''BASE64_END''\<rparr>],
            execution_time_ms = None\<rparr>"]
    by (simp add: fixed_execute_def)
qed

text \<open>
  C8, counterexample to "an invalid Base64 payload gives \<open>False\<close>": the payload \<open>$$$$\<close>
  holds no character of the Base64 alphabet, \<open>b64decode\<close> drops all four and returns no
  bytes, and the helper writes an empty file and returns \<open>True\<close>.
\<close>

theorem download_tolerated_payload_counterexample:
  "download_file_from_sandbox os_ok
     (fixed_execute (Inr \<lparr>status = ''succeeded'',
        outputs = [\<lparr>type = ''stdout'', data = ''BASE64_START\<newline>$$$$\<newline>BASE64_END''\<rparr>],
        execution_time_ms = None\<rparr>))
     ''/tmp/chart.png'' ''output/chart.png'' =
     (Inr True, [Makedirs ''output'', Write ''output/chart.png'' []]) \<and>
   \<not> base64_text ''$$$$''"
  by code_simp

subsection \<open>The status of the result is not read\<close>

text \<open>
  C10. \<open>download_file_from_sandbox\<close> does not read the status of the result: two
  results with the same outputs, whatever their statuses and execution times, lead to the
  same effects on the local machine and to the same returned boolean.
\<close>

theorem download_ignores_status:
  assumes "execute (download_code filename) ''python'' False = Inr r"
    and "execute' (download_code filename) ''python'' False = Inr r'"
    and "outputs r' = outputs r"
  shows "download_file_from_sandbox os execute' filename local_path =
         download_file_from_sandbox os execute filename local_path"
  using assms by (simp add: download_on_result)

text \<open>
  C10, witness: the same outputs under the statuses \<open>failed\<close> and \<open>succeeded\<close>. The
  payload of the failed run is decoded and written.
\<close>

theorem download_ignores_status_witness:
  "download_file_from_sandbox os_ok
     (fixed_execute (Inr \<lparr>status = ''failed'',
        outputs = [\<lparr>type = ''stdout'', data = ''BASE64_START\<newline>QUJDCg==\<newline>BASE64_END\<newline>''\<rparr>],
        execution_time_ms = None\<rparr>))
     ''/tmp/chart.png'' ''output/chart.png'' =
   download_file_from_sandbox os_ok
     (fixed_execute (Inr \<lparr>status = ''succeeded'',
        outputs = [\<lparr>type = ''stdout'', data = ''BASE64_START\<newline>QUJDCg==\<newline>BASE64_END\<newline>''\<rparr>],
        execution_time_ms = None\<rparr>))
     ''/tmp/chart.png'' ''output/chart.png'' \<and>
   download_file_from_sandbox os_ok
     (fixed_execute (Inr \<lparr>status = ''failed'',
        outputs = [\<lparr>type = ''stdout'', data = ''BASE64_START\<newline>QUJDCg==\<newline>BASE64_END\<newline>''\<rparr>],
        execution_time_ms = None\<rparr>))
     ''/tmp/chart.png'' ''output/chart.png'' =
     (Inr True, [Makedirs ''output'', Write ''output/chart.png'' [0x41, 0x42, 0x43, 0x0A]])"
proof
  show "download_file_from_sandbox os_ok
     (fixed_execute (Inr \<lparr>status = ''failed'',
        outputs = [\<lparr>type = ''stdout'', data = ''BASE64_START\<newline>QUJDCg==\<newline>BASE64_END\<newline>''\<rparr>],
        execution_time_ms = None\<rparr>))
     ''/tmp/chart.png'' ''output/chart.png'' =
   download_file_from_sandbox os_ok
     (fixed_execute (Inr \<lparr>status = ''succeeded'',
        outputs = [\<lparr>type = ''stdout'', data = ''BASE64_START\<newline>QUJDCg==\<newline>BASE64_END\<newline>''\<rparr>],
        execution_time_ms = None\<rparr>))
     ''/tmp/chart.png'' ''output/chart.png''"
    using download_ignores_status
      [where os = os_ok
         and execute = "fixed_execute (Inr \<lparr>status = ''succeeded'',
            outputs = [\<lparr>type = ''stdout'', data = ''BASE64_START\<newline>QUJDCg==\<newline>BASE64_END\<newline>''\<rparr>],
            execution_time_ms = None\<rparr>)"
         and execute' = "fixed_execute (Inr \<lparr>status = ''failed'',
            outputs = [\<lparr>type = ''stdout'', data = ''BASE64_START\<newline>QUJDCg==\<newline>BASE64_END\<newline>''\<rparr>],
            execution_time_ms = None\<rparr>)"
         and filename = "''/tmp/chart.png''" and local_path = "''output/chart.png''"
         and r = "\<lparr>status = ''succeeded'',
            outputs = [\<lparr>type = ''stdout'', data = ''BASE64_START\<newline>QUJDCg==\<newline>BASE64_END\<newline>''\<rparr>],
            execution_time_ms = None\<rparr>"
         and r' = "\<lparr>status = ''failed'',
            outputs = [\<lparr>type = ''stdout'', data = ''BASE64_START\<newline>QUJDCg==\<newline>BASE64_END\<newline>''\<rparr>],
            execution_time_ms = None\<rparr>"]
    by (simp add: fixed_execute_def)
next
  have "dirname ''output/chart.png'' = ''output''"
    and "\<not> sublist ''ERROR: File not found''
           ''BASE64_START\<newline>QUJDCg==\<newline>BASE64_END\<newline>''"
    by code_simp+
  then show "download_file_from_sandbox os_ok
     (fixed_execute (Inr \<lparr>status = ''failed'',
        outputs = [\<lparr>type = ''stdout'', data = ''BASE64_START\<newline>QUJDCg==\<newline>BASE64_END\<newline>''\<rparr>],
        execution_time_ms = None\<rparr>))
     ''/tmp/chart.png'' ''output/chart.png'' =
     (Inr True, [Makedirs ''output'', Write ''output/chart.png'' [0x41, 0x42, 0x43, 0x0A]])"
    using download_framed
      [where os = os_ok
         and execute = "fixed_execute (Inr \<lparr>status = ''failed'',
            outputs = [\<lparr>type = ''stdout'', data = ''BASE64_START\<newline>QUJDCg==\<newline>BASE64_END\<newline>''\<rparr>],
            execution_time_ms = None\<rparr>)"
         and filename = "''/tmp/chart.png''" and local_path = "''output/chart.png''"
         and r = "\<lparr>status = ''failed'',
            outputs = [\<lparr>type = ''stdout'', data = ''BASE64_START\<newline>QUJDCg==\<newline>BASE64_END\<newline>''\<rparr>],
            execution_time_ms = None\<rparr>"
         and skipped = "[]"
         and output_item = "\<lparr>type = ''stdout'', data = ''BASE64_START\<newline>QUJDCg==\<newline>BASE64_END\<newline>''\<rparr>"
         and rest = "[]" and pre = "[]" and payload = "''QUJDCg==''" and post = "''\<newline>''"
         and content = "[0x41, 0x42, 0x43, 0x0A]"]
      b64decode_chart base64_text_chart
    by (simp add: fixed_execute_def os_ok_def)
qed

end
